theory Spec2Isabelle
  imports Complex_Main
begin

section \<open>BVDU-Bank: trading and portfolio accounting engine\<close>

text \<open>
  A shallow embedding of the trading part of \<^verbatim>\<open>bvdu_bank.c\<close>: market hours, the
  price tick, portfolio valuation, and the buy and sell operations.

  Conventions of the embedding.
  \<^item> A C \<^verbatim>\<open>double\<close> held in the state is a \<^typ>\<open>real\<close>: the arithmetic is the exact
    arithmetic the floating-point operations approximate (no rounding), and the state
    holds finite numbers only.
  \<^item> The quantity typed at the console is what \<^verbatim>\<open>atof\<close> makes of the line: a finite
    number, an infinity or NaN (type \<open>read_double\<close>). Where the guards of a trade let a
    NaN or an infinite amount through, the code writes it into the cash balance and the
    position; the model then stops with the outcome \<open>BookedNonFinite\<close> and returns the
    state as it was before that write, since the state record cannot hold such a value.
  \<^item> A C \<^verbatim>\<open>int\<close> is an \<^typ>\<open>int\<close>; the functions below only compare integers.
  \<^item> A \<^verbatim>\<open>char[n]\<close> buffer is the \<^typ>\<open>string\<close> a reader finds in it (the characters
    up to the first NUL); \<^verbatim>\<open>strcmp(a, b) == 0\<close> is equality. \<^verbatim>\<open>strncpy(dst, src, k)\<close>
    copies a source of fewer than \<open>k\<close> characters whole and terminates it. For a longer
    source it copies \<open>k\<close> characters and writes no NUL: what a reader then finds after
    them is what the destination held there. The timestamps and the literals copied
    below are shorter than \<open>k\<close>; the local \<^verbatim>\<open>Holding h\<close> of a buy is uninitialised, and
    what it holds after the copied characters is an input of the model (\<open>garbage\<close>).
  \<^item> The global arrays \<^verbatim>\<open>accounts\<close>, \<^verbatim>\<open>holdings\<close>, \<^verbatim>\<open>prices\<close> with their counters
    are lists (the first \<^verbatim>\<open>count\<close> entries of the array); together with \<^verbatim>\<open>fx\<close>
    they form the state record \<open>bank\<close>, passed in and returned.
  \<^item> The wall clock and the console are inputs: the local hour, the timestamp text,
    the line typed for the asset id (\<open>None\<close> when \<^verbatim>\<open>fgets\<close> fails) and the number
    typed for the quantity are parameters. One operation sees one hour and one timestamp.
  \<^item> \<^verbatim>\<open>rand()\<close> is a stream \<open>rnd :: nat \<Rightarrow> nat\<close> of raw values with a read position;
    \<^verbatim>\<open>RAND_MAX\<close> belongs to the C library and is a parameter.
  \<^item> The message a \<^verbatim>\<open>void\<close> function prints before it returns is its \<open>outcome\<close>.
  \<^item> Writing the data files and the append-only logs does not change the in-memory
    state and is left out.
\<close>

subsection \<open>Configuration and data structures\<close>

definition MAX_HOLDINGS :: nat where
  "MAX_HOLDINGS = 2000"

record Account =
  acc_no :: int
  name :: string
  acc_type :: string
  pin :: int
  balance :: real
  loan :: real
  active :: int
  frozen :: int
  failed_attempts :: int
  upi :: string
  last_login :: string

text \<open>The fields of \<^verbatim>\<open>Holding\<close> whose names \<^verbatim>\<open>PriceRec\<close> or \<^verbatim>\<open>Account\<close> also use carry
  the prefix \<open>h_\<close>; \<^verbatim>\<open>FXRates.last_update\<close> is \<open>fx_last_update\<close>.\<close>

record Holding =
  h_acc_no :: int
  h_asset_id :: string
  h_asset_name :: string
  qty :: real
  avg_price :: real
  h_market :: string

record PriceRec =
  asset_id :: string
  asset_name :: string
  price :: real
  vol :: real
  market :: string
  last_update :: string
  open_hour :: int
  close_hour :: int

record FXRates =
  inr_per_usd :: real
  inr_per_eur :: real
  fx_last_update :: string

record bank =
  accounts :: "Account list"
  holdings :: "Holding list"
  prices :: "PriceRec list"
  fx :: FXRates

datatype outcome =
    Ok
  | NotLoggedIn
  | BadAccountIndex
  | NoInput
  | AssetNotFound
  | MarketClosed
  | InvalidQuantity
  | InsufficientFunds
  | HoldingsLimit
  | NoSuchPosition
  | BookedNonFinite

text \<open>The \<^verbatim>\<open>double\<close> that \<^verbatim>\<open>safe_read_double\<close> returns: \<^verbatim>\<open>atof\<close> yields NaN for the line
  \<^verbatim>\<open>nan\<close> and an infinity for \<^verbatim>\<open>inf\<close>, \<^verbatim>\<open>-inf\<close> or a number out of range.\<close>

datatype read_double = Num real | PInf | NInf | NaN

text \<open>What a reader finds in the local \<^verbatim>\<open>Holding h\<close> of \<^verbatim>\<open>buy_asset_loggedin\<close> behind the
  characters that \<^verbatim>\<open>strncpy\<close> copied into each of its three text fields when it wrote no
  NUL: the bytes from the last byte of the field on, up to the first NUL (the empty
  string when that byte happens to be NUL). The local is uninitialised, so these bytes are
  whatever the stack held, followed by what the code stored behind the field.\<close>

record garbage =
  g_asset_id :: string
  g_asset_name :: string
  g_market :: string

subsection \<open>Helpers\<close>

text \<open>\<^verbatim>\<open>strncpy\<close> of a timestamp or a literal, which is shorter than \<open>k\<close>.\<close>

definition strncpy :: "nat \<Rightarrow> string \<Rightarrow> string" where
  "strncpy k src = take k src"

text \<open>\<^verbatim>\<open>strncpy\<close> into a field of the uninitialised local: a source of \<open>k\<close> or more characters
  is left without a terminating NUL and the reader runs on into \<open>rest\<close>.\<close>

definition strncpy_uninit :: "string \<Rightarrow> nat \<Rightarrow> string \<Rightarrow> string" where
  "strncpy_uninit rest k src = (if length src < k then src else take k src @ rest)"

text \<open>The comparisons of the typed quantity: \<^verbatim>\<open>qty <= 0\<close> and \<^verbatim>\<open>qty > held\<close>. Every
  comparison with NaN is false.\<close>

fun qty_le_zero :: "read_double \<Rightarrow> bool" where
  "qty_le_zero (Num x) = (x \<le> 0)"
| "qty_le_zero NInf = True"
| "qty_le_zero PInf = False"
| "qty_le_zero NaN = False"

fun qty_gt :: "read_double \<Rightarrow> real \<Rightarrow> bool" where
  "qty_gt (Num x) held = (x > held)"
| "qty_gt PInf held = True"
| "qty_gt NInf held = False"
| "qty_gt NaN held = False"

text \<open>The finders return the first matching index, \<open>None\<close> for the C result \<open>-1\<close>.\<close>

fun find_price_index :: "PriceRec list \<Rightarrow> string \<Rightarrow> nat option" where
  "find_price_index [] a = None"
| "find_price_index (p # ps) a =
     (if asset_id p = a then Some 0 else map_option Suc (find_price_index ps a))"

fun find_holding_index :: "Holding list \<Rightarrow> int \<Rightarrow> string \<Rightarrow> nat option" where
  "find_holding_index [] n a = None"
| "find_holding_index (h # hs) n a =
     (if h_acc_no h = n \<and> h_asset_id h = a then Some 0
      else map_option Suc (find_holding_index hs n a))"

subsection \<open>Market time and tick\<close>

definition market_is_open :: "PriceRec \<Rightarrow> int \<Rightarrow> bool" where
  "market_is_open p hour =
     (if open_hour p \<le> close_hour p then (hour \<ge> open_hour p \<and> hour < close_hour p)
      else (hour \<ge> open_hour p \<or> hour < close_hour p))"

definition rand_minus1_1 :: "nat \<Rightarrow> nat \<Rightarrow> real" where
  "rand_minus1_1 RAND_MAX r = (real r / real RAND_MAX) * 2.0 - 1.0"

text \<open>The body both tick loops share: scale the price, clamp it to the floor.\<close>

definition apply_change :: "real \<Rightarrow> PriceRec \<Rightarrow> PriceRec" where
  "apply_change change_pct p =
     (let p1 = p\<lparr>price := price p * (1.0 + change_pct)\<rparr>
      in if price p1 < 0.0001 then p1\<lparr>price := 0.0001\<rparr> else p1)"

text \<open>\<^verbatim>\<open>tick_market_once\<close>: the loop over the catalog; \<open>k\<close> is the read position in the
  random stream, advanced only when an asset is open.\<close>

fun tick_market_loop ::
  "nat \<Rightarrow> (nat \<Rightarrow> nat) \<Rightarrow> int \<Rightarrow> string \<Rightarrow> nat \<Rightarrow> PriceRec list \<Rightarrow> PriceRec list" where
  "tick_market_loop RAND_MAX rnd hour ts k [] = []"
| "tick_market_loop RAND_MAX rnd hour ts k (p # ps) =
     (if market_is_open p hour
      then (apply_change (rand_minus1_1 RAND_MAX (rnd k) * vol p) p)
             \<lparr>last_update := strncpy 24 ts\<rparr>
           # tick_market_loop RAND_MAX rnd hour ts (Suc k) ps
      else p # tick_market_loop RAND_MAX rnd hour ts k ps)"

definition tick_market_once ::
  "nat \<Rightarrow> (nat \<Rightarrow> nat) \<Rightarrow> int \<Rightarrow> string \<Rightarrow> bank \<Rightarrow> bank" where
  "tick_market_once RAND_MAX rnd hour ts s =
     s\<lparr>prices := tick_market_loop RAND_MAX rnd hour ts 0 (prices s)\<rparr>"

text \<open>\<^verbatim>\<open>admin_randomize_all_prices\<close>: reseeds, then the same loop without the
  \<^verbatim>\<open>market_is_open\<close> test and with five times the volatility.\<close>

fun admin_randomize_loop ::
  "nat \<Rightarrow> (nat \<Rightarrow> nat) \<Rightarrow> string \<Rightarrow> nat \<Rightarrow> PriceRec list \<Rightarrow> PriceRec list" where
  "admin_randomize_loop RAND_MAX rnd ts k [] = []"
| "admin_randomize_loop RAND_MAX rnd ts k (p # ps) =
     (apply_change (rand_minus1_1 RAND_MAX (rnd k) * vol p * 5.0) p)
       \<lparr>last_update := ts\<rparr>
     # admin_randomize_loop RAND_MAX rnd ts (Suc k) ps"

definition admin_randomize_all_prices ::
  "nat \<Rightarrow> (nat \<Rightarrow> nat) \<Rightarrow> string \<Rightarrow> bank \<Rightarrow> bank" where
  "admin_randomize_all_prices RAND_MAX rnd ts s =
     s\<lparr>prices := admin_randomize_loop RAND_MAX rnd ts 0 (prices s)\<rparr>"

subsection \<open>Portfolio valuation\<close>

definition price_in_inr :: "FXRates \<Rightarrow> PriceRec \<Rightarrow> real" where
  "price_in_inr f p =
     (if market p = ''IN'' then price p
      else if market p = ''US'' then price p * inr_per_usd f
      else if market p = ''EU'' then price p * inr_per_eur f
      else price p)"

text \<open>The value of \<^verbatim>\<open>cur_price\<close> in the loop of \<^verbatim>\<open>compute_portfolio_value_inr\<close>.\<close>

definition portfolio_cur_price :: "FXRates \<Rightarrow> PriceRec list \<Rightarrow> Holding \<Rightarrow> real" where
  "portfolio_cur_price f ps h =
     (case find_price_index ps (h_asset_id h) of
        Some pidx \<Rightarrow> price_in_inr f (ps ! pidx)
      | None \<Rightarrow> avg_price h * (if h_market h = ''US'' then inr_per_usd f else 1.0))"

fun portfolio_value_loop ::
  "FXRates \<Rightarrow> PriceRec list \<Rightarrow> int \<Rightarrow> Holding list \<Rightarrow> real \<Rightarrow> real" where
  "portfolio_value_loop f ps n [] tot = tot"
| "portfolio_value_loop f ps n (h # hs) tot =
     (if h_acc_no h \<noteq> n then portfolio_value_loop f ps n hs tot
      else portfolio_value_loop f ps n hs (tot + qty h * portfolio_cur_price f ps h))"

definition compute_portfolio_value_inr :: "bank \<Rightarrow> int \<Rightarrow> real" where
  "compute_portfolio_value_inr s n = portfolio_value_loop (fx s) (prices s) n (holdings s) 0.0"

text \<open>The locals \<^verbatim>\<open>cur_price_native\<close>, \<^verbatim>\<open>cur_inr\<close> and \<^verbatim>\<open>avg_inr\<close> in the loop of
  \<^verbatim>\<open>compute_unrealized_pl_inr\<close>.\<close>

definition cur_price_native :: "PriceRec list \<Rightarrow> Holding \<Rightarrow> real" where
  "cur_price_native ps h =
     (case find_price_index ps (h_asset_id h) of
        Some pidx \<Rightarrow> price (ps ! pidx)
      | None \<Rightarrow> avg_price h)"

definition cur_inr :: "FXRates \<Rightarrow> PriceRec list \<Rightarrow> Holding \<Rightarrow> real" where
  "cur_inr f ps h =
     (if h_market h = ''IN'' then cur_price_native ps h
      else if h_market h = ''US'' then cur_price_native ps h * inr_per_usd f
      else if h_market h = ''EU'' then cur_price_native ps h * inr_per_eur f
      else cur_price_native ps h)"

definition avg_inr :: "FXRates \<Rightarrow> Holding \<Rightarrow> real" where
  "avg_inr f h =
     avg_price h * (if h_market h = ''US'' then inr_per_usd f
                    else (if h_market h = ''EU'' then inr_per_eur f else 1.0))"

fun unrealized_pl_loop ::
  "FXRates \<Rightarrow> PriceRec list \<Rightarrow> int \<Rightarrow> Holding list \<Rightarrow> real \<Rightarrow> real" where
  "unrealized_pl_loop f ps n [] pl = pl"
| "unrealized_pl_loop f ps n (h # hs) pl =
     (if h_acc_no h \<noteq> n then unrealized_pl_loop f ps n hs pl
      else unrealized_pl_loop f ps n hs (pl + qty h * (cur_inr f ps h - avg_inr f h)))"

definition compute_unrealized_pl_inr :: "bank \<Rightarrow> int \<Rightarrow> real" where
  "compute_unrealized_pl_inr s n = unrealized_pl_loop (fx s) (prices s) n (holdings s) 0.0"

subsection \<open>Trading: default catalog, buy, sell\<close>

definition default_prices :: "string \<Rightarrow> PriceRec list" where
  "default_prices ts =
     [\<lparr>asset_id = strncpy 15 ''INFY'', asset_name = strncpy 63 ''Infosys Ltd'', price = 1500.0,
       vol = 0.01, market = strncpy 7 ''IN'', last_update = ts, open_hour = 9, close_hour = 15\<rparr>,
      \<lparr>asset_id = strncpy 15 ''TCS'', asset_name = strncpy 63 ''TCS'', price = 3200.0,
       vol = 0.008, market = strncpy 7 ''IN'', last_update = ts, open_hour = 9, close_hour = 15\<rparr>,
      \<lparr>asset_id = strncpy 15 ''AAPL'', asset_name = strncpy 63 ''Apple Inc'', price = 190.0,
       vol = 0.02, market = strncpy 7 ''US'', last_update = ts, open_hour = 9, close_hour = 17\<rparr>,
      \<lparr>asset_id = strncpy 15 ''NVDA'', asset_name = strncpy 63 ''NVIDIA Corp'', price = 190.0,
       vol = 0.03, market = strncpy 7 ''US'', last_update = ts, open_hour = 9, close_hour = 17\<rparr>,
      \<lparr>asset_id = strncpy 15 ''BTC'', asset_name = strncpy 63 ''Bitcoin'', price = 35000.0,
       vol = 0.05, market = strncpy 7 ''US'', last_update = ts, open_hour = 0, close_hour = 24\<rparr>,
      \<lparr>asset_id = strncpy 15 ''SIE'', asset_name = strncpy 63 ''Siemens'', price = 120.0,
       vol = 0.018, market = strncpy 7 ''EU'', last_update = ts, open_hour = 8, close_hour = 18\<rparr>]"

definition ensure_default_prices :: "string \<Rightarrow> bank \<Rightarrow> bank" where
  "ensure_default_prices ts s =
     (if length (prices s) > 0 then s else s\<lparr>prices := default_prices ts\<rparr>)"

definition cost_in_inr_for_purchase :: "FXRates \<Rightarrow> PriceRec \<Rightarrow> real \<Rightarrow> real" where
  "cost_in_inr_for_purchase f p q =
     (let cost_native = price p * q
      in if market p = ''IN'' then cost_native
         else if market p = ''US'' then cost_native * inr_per_usd f
         else if market p = ''EU'' then cost_native * inr_per_eur f
         else cost_native)"

text \<open>Adding \<open>d\<close> to \<^verbatim>\<open>accounts[i].balance\<close>.\<close>

definition add_balance :: "nat \<Rightarrow> real \<Rightarrow> bank \<Rightarrow> bank" where
  "add_balance i d s =
     s\<lparr>accounts := (accounts s)[i := (accounts s ! i)\<lparr>balance := balance (accounts s ! i) + d\<rparr>]\<rparr>"

text \<open>The comparison \<^verbatim>\<open>cost_inr > balance\<close> of a buy. The cost of infinitely many units
  is the infinity with the sign of the cost of one unit, or NaN when that cost is zero.\<close>

fun cost_exceeds :: "FXRates \<Rightarrow> PriceRec \<Rightarrow> read_double \<Rightarrow> real \<Rightarrow> bool" where
  "cost_exceeds f p (Num x) bal = (cost_in_inr_for_purchase f p x > bal)"
| "cost_exceeds f p PInf bal = (cost_in_inr_for_purchase f p 1 > 0)"
| "cost_exceeds f p NInf bal = (cost_in_inr_for_purchase f p 1 < 0)"
| "cost_exceeds f p NaN bal = False"

text \<open>The holding the first buy of an asset appends: the local \<^verbatim>\<open>Holding h\<close>, filled field
  by field.\<close>

definition new_holding :: "garbage \<Rightarrow> Account \<Rightarrow> PriceRec \<Rightarrow> real \<Rightarrow> Holding" where
  "new_holding g a pr q =
     \<lparr>h_acc_no = acc_no a, h_asset_id = strncpy_uninit (g_asset_id g) 15 (asset_id pr),
      h_asset_name = strncpy_uninit (g_asset_name g) 63 (asset_name pr), qty = q,
      avg_price = price pr,
      h_market = strncpy_uninit (g_market g) 7 (market pr)\<rparr>"

text \<open>The update of an existing holding by a further buy.\<close>

definition increase_holding :: "PriceRec \<Rightarrow> real \<Rightarrow> Holding \<Rightarrow> Holding" where
  "increase_holding pr q h =
     (let total_old = avg_price h * qty h;
          total_new = price pr * q;
          h1 = h\<lparr>qty := qty h + q\<rparr>
      in if qty h1 > 0.0 then h1\<lparr>avg_price := (total_old + total_new) / qty h1\<rparr> else h1)"

text \<open>\<^verbatim>\<open>buy_asset_loggedin\<close>. The source tests only \<^verbatim>\<open>acc_idx < 0\<close>; its callers pass
  the index of the logged-in account, and the model answers \<open>BadAccountIndex\<close> for an
  index past the end of the list, where the C code would read an unused array slot.
  A quantity that passes \<^verbatim>\<open>qty <= 0\<close> and \<^verbatim>\<open>cost_inr > balance\<close> without being a finite
  number (NaN, or an infinity whose cost is not \<open>+\<infinity>\<close>) is booked by the code; that is the
  outcome \<open>BookedNonFinite\<close>.\<close>

definition buy_asset_loggedin ::
  "string \<Rightarrow> int \<Rightarrow> garbage \<Rightarrow> string option \<Rightarrow> read_double \<Rightarrow> int \<Rightarrow> bank
     \<Rightarrow> outcome \<times> bank" where
  "buy_asset_loggedin ts hour g buf q acc_idx s0 =
     (if acc_idx < 0 then (NotLoggedIn, s0)
      else if nat acc_idx \<ge> length (accounts s0) then (BadAccountIndex, s0)
      else
        let s = ensure_default_prices ts s0; i = nat acc_idx in
        case buf of
          None \<Rightarrow> (NoInput, s)
        | Some a \<Rightarrow>
            (case find_price_index (prices s) a of
               None \<Rightarrow> (AssetNotFound, s)
             | Some pidx \<Rightarrow>
                 let pr = prices s ! pidx in
                 if \<not> market_is_open pr hour then (MarketClosed, s)
                 else if qty_le_zero q then (InvalidQuantity, s)
                 else if cost_exceeds (fx s) pr q (balance (accounts s ! i))
                   then (InsufficientFunds, s)
                 else
                   (case q of
                      Num x \<Rightarrow>
                        let cost_inr = cost_in_inr_for_purchase (fx s) pr x;
                            s1 = add_balance i (- cost_inr) s in
                        (case find_holding_index (holdings s1) (acc_no (accounts s1 ! i)) (asset_id pr) of
                           None \<Rightarrow>
                             if length (holdings s1) \<ge> MAX_HOLDINGS then (HoldingsLimit, s1)
                             else (Ok, s1\<lparr>holdings :=
                                         holdings s1 @ [new_holding g (accounts s1 ! i) pr x]\<rparr>)
                         | Some hidx \<Rightarrow>
                             (Ok, s1\<lparr>holdings :=
                                    (holdings s1)[hidx := increase_holding pr x (holdings s1 ! hidx)]\<rparr>))
                    | _ \<Rightarrow> (BookedNonFinite, s))))"

text \<open>Removing \<^verbatim>\<open>holdings[hidx]\<close>: the loop that shifts the later entries one place
  down, followed by \<^verbatim>\<open>hold_count--\<close>.\<close>

fun remove_holding :: "nat \<Rightarrow> Holding list \<Rightarrow> Holding list" where
  "remove_holding i [] = []"
| "remove_holding 0 (h # hs) = hs"
| "remove_holding (Suc i) (h # hs) = h # remove_holding i hs"

text \<open>\<^verbatim>\<open>sell_asset_loggedin\<close>. It never calls \<^verbatim>\<open>market_is_open\<close>, so the hour is not among
  its inputs. The one quantity that passes its guard without being a finite number is
  NaN; the code then computes the new quantity and the new cash with it.\<close>

definition sell_asset_loggedin ::
  "string \<Rightarrow> string option \<Rightarrow> read_double \<Rightarrow> int \<Rightarrow> bank \<Rightarrow> outcome \<times> bank" where
  "sell_asset_loggedin ts buf q acc_idx s0 =
     (if acc_idx < 0 then (NotLoggedIn, s0)
      else if nat acc_idx \<ge> length (accounts s0) then (BadAccountIndex, s0)
      else
        let s = ensure_default_prices ts s0; i = nat acc_idx in
        case buf of
          None \<Rightarrow> (NoInput, s)
        | Some a \<Rightarrow>
            (case find_price_index (prices s) a of
               None \<Rightarrow> (AssetNotFound, s)
             | Some pidx \<Rightarrow>
                 (case find_holding_index (holdings s) (acc_no (accounts s ! i)) a of
                    None \<Rightarrow> (NoSuchPosition, s)
                  | Some hidx \<Rightarrow>
                      let h = holdings s ! hidx; pr = prices s ! pidx in
                      if qty_le_zero q \<or> qty_gt q (qty h) then (InvalidQuantity, s)
                      else
                        (case q of
                           Num x \<Rightarrow>
                             let proceeds_inr = cost_in_inr_for_purchase (fx s) pr x;
                                 h1 = h\<lparr>qty := qty h - x\<rparr>;
                                 hs1 = (holdings s)[hidx := h1];
                                 hs2 = (if qty h1 \<le> 0.000001 then remove_holding hidx hs1 else hs1)
                             in (Ok, add_balance i proceeds_inr (s\<lparr>holdings := hs2\<rparr>))
                         | _ \<Rightarrow> (BookedNonFinite, s)))))"

text \<open>The conversion factor as the FX Converter is specified: identity for IN, INR per USD
  for US, INR per EUR for EU, 1.0 for any other market. It is compared with
  \<open>cost_in_inr_for_purchase\<close> below.\<close>

definition spec_fx_rate :: "FXRates \<Rightarrow> string \<Rightarrow> real" where
  "spec_fx_rate f m =
     (if m = ''IN'' then 1 else if m = ''US'' then inr_per_usd f
      else if m = ''EU'' then inr_per_eur f else 1)"

subsection \<open>Example states\<close>

text \<open>Concrete data for the examples below: the initial value of the global \<^verbatim>\<open>fx\<close>, a
  customer, and a desk with the default catalog.\<close>

definition fx_initial :: FXRates where
  "fx_initial = \<lparr>inr_per_usd = 83.5, inr_per_eur = 88.2, fx_last_update = ''''\<rparr>"

definition alice :: Account where
  "alice = \<lparr>acc_no = 1001, name = ''Alice'', acc_type = ''Savings'', pin = 4321,
     balance = 50000, loan = 0, active = 1, frozen = 0, failed_attempts = 0,
     upi = ''alice@bvdu'', last_login = ''''\<rparr>"

definition desk :: bank where
  "desk = \<lparr>accounts = [alice], holdings = [],
     prices = default_prices ''2025-01-06 10:00:00'', fx = fx_initial\<rparr>"

definition aapl_row :: Holding where
  "aapl_row = \<lparr>h_acc_no = 1001, h_asset_id = ''AAPL'', h_asset_name = ''Apple Inc'',
     qty = 2, avg_price = 190, h_market = ''US''\<rparr>"

definition other_row :: Holding where
  "other_row = \<lparr>h_acc_no = 1002, h_asset_id = ''TCS'', h_asset_name = ''TCS'',
     qty = 1, avg_price = 3200, h_market = ''IN''\<rparr>"

definition eu_orphan_row :: Holding where
  "eu_orphan_row = \<lparr>h_acc_no = 1001, h_asset_id = ''OLDEU'', h_asset_name = ''Withdrawn'',
     qty = 1, avg_price = 100, h_market = ''EU''\<rparr>"

definition evening_asset :: PriceRec where
  "evening_asset = \<lparr>asset_id = ''EVE'', asset_name = ''Evening'', price = 50, vol = 0.02,
     market = ''IN'', last_update = '''', open_hour = 9, close_hour = 24\<rparr>"

definition night_asset :: PriceRec where
  "night_asset = \<lparr>asset_id = ''NGT'', asset_name = ''Night'', price = 50, vol = 3,
     market = ''IN'', last_update = '''', open_hour = 20, close_hour = 4\<rparr>"

text \<open>Random streams that always return the largest and the smallest raw value, for
  \<^verbatim>\<open>RAND_MAX\<close> = 32767.\<close>

definition top_draws :: "nat \<Rightarrow> nat" where
  "top_draws k = 32767"

definition bottom_draws :: "nat \<Rightarrow> nat" where
  "bottom_draws k = 0"

text \<open>The desk after Alice bought two AAPL, and a desk whose position book is full of
  another customer's rows.\<close>

definition desk_aapl :: bank where
  "desk_aapl = desk\<lparr>holdings := [aapl_row]\<rparr>"

definition full_book :: bank where
  "full_book = desk\<lparr>holdings := replicate 2000 other_row\<rparr>"

text \<open>Bytes left on the stack where the local \<^verbatim>\<open>Holding h\<close> of a buy comes to lie.\<close>

definition stack_garbage :: garbage where
  "stack_garbage = \<lparr>g_asset_id = ''?'', g_asset_name = ''?'', g_market = ''?''\<rparr>"

text \<open>Alice's first buy of two AAPL at hour 10, and the desk after AAPL has moved to 200.\<close>

definition desk_after_first :: bank where
  "desk_after_first = snd (buy_asset_loggedin '''' 10 stack_garbage (Some ''AAPL'') (Num 2) 0 desk)"

definition desk_repriced :: bank where
  "desk_repriced =
     desk_after_first\<lparr>prices := (prices desk)[2 := (prices desk ! 2)\<lparr>price := 200\<rparr>]\<rparr>"

text \<open>A catalog as \<^verbatim>\<open>load_prices\<close> reads it from a file with one more line: an asset whose
  id has 15 characters, the longest the format \<^verbatim>\<open>%15[^|]\<close> takes. Alice buys one unit of
  it; \<open>desk_long_first\<close> is the desk after that buy.\<close>

definition long_asset :: PriceRec where
  "long_asset = \<lparr>asset_id = ''ABCDEFGHIJKLMNO'', asset_name = ''Fifteen Letters'', price = 100,
     vol = 0.01, market = ''IN'', last_update = ''2025-01-06 10:00:00'', open_hour = 0,
     close_hour = 24\<rparr>"

definition desk_long :: bank where
  "desk_long = desk\<lparr>prices := default_prices ''2025-01-06 10:00:00'' @ [long_asset]\<rparr>"

text \<open>The stack for that buy: the last byte of the id field of the local holds \<^verbatim>\<open>?\<close>, and
  behind it lies the name field.\<close>

definition long_garbage :: garbage where
  "long_garbage = \<lparr>g_asset_id = ''?Fifteen Letters'', g_asset_name = ''?'', g_market = ''?''\<rparr>"

definition desk_long_first :: bank where
  "desk_long_first =
     snd (buy_asset_loggedin '''' 10 long_garbage (Some ''ABCDEFGHIJKLMNO'') (Num 1) 0 desk_long)"

section \<open>Auxiliary facts\<close>

lemma find_price_index_Some:
  "find_price_index ps a = Some i \<Longrightarrow> i < length ps \<and> asset_id (ps ! i) = a"
  by (induction ps arbitrary: i) (auto split: if_splits)

lemma find_holding_index_Some:
  "find_holding_index hs n a = Some i \<Longrightarrow>
     i < length hs \<and> h_acc_no (hs ! i) = n \<and> h_asset_id (hs ! i) = a"
  by (induction hs arbitrary: i) (auto split: if_splits)

lemma find_holding_index_append_new:
  "find_holding_index hs n a = None \<Longrightarrow> h_acc_no h = n \<Longrightarrow> h_asset_id h = a \<Longrightarrow>
     find_holding_index (hs @ [h]) n a = Some (length hs)"
  by (induction hs) (auto split: if_splits)

lemma find_holding_index_replicate:
  "h_acc_no h \<noteq> n \<Longrightarrow> find_holding_index (replicate k h) n a = None"
  by (induction k) auto

lemma remove_holding_update: "remove_holding i (hs[i := v]) = remove_holding i hs"
  by (induction i hs rule: remove_holding.induct) auto

lemma remove_holding_take_drop: "remove_holding i hs = take i hs @ drop (Suc i) hs"
  by (induction i hs rule: remove_holding.induct) auto

lemma find_holding_index_removed:
  "find_holding_index hs n a = Some i \<Longrightarrow> find_holding_index (drop (Suc i) hs) n a = None \<Longrightarrow>
     find_holding_index (remove_holding i hs) n a = None"
  by (induction hs arbitrary: i) (auto split: if_splits)

lemma price_apply_change_floor: "0.0001 \<le> price (apply_change c p)"
  by (simp add: apply_change_def Let_def)

lemma length_tick_market_loop: "length (tick_market_loop R rnd hour ts k ps) = length ps"
  by (induction ps arbitrary: k) auto

lemma length_admin_randomize_loop: "length (admin_randomize_loop R rnd ts k ps) = length ps"
  by (induction ps arbitrary: k) auto

lemma tick_market_loop_closed:
  "i < length ps \<Longrightarrow> \<not> market_is_open (ps ! i) hour \<Longrightarrow>
     tick_market_loop R rnd hour ts k ps ! i = ps ! i"
  by (induction ps arbitrary: k i) (auto simp: nth_Cons split: nat.splits)

lemma tick_market_loop_open:
  "i < length ps \<Longrightarrow> market_is_open (ps ! i) hour \<Longrightarrow>
     0.0001 \<le> price (tick_market_loop R rnd hour ts k ps ! i)"
proof (induction ps arbitrary: k i)
  case Nil
  then show ?case by simp
next
  case (Cons p ps)
  show ?case
  proof (cases i)
    case 0
    with Cons.prems show ?thesis
      using price_apply_change_floor [of "rand_minus1_1 R (rnd k) * vol p" p] by simp
  next
    case (Suc j)
    with Cons.prems have "j < length ps" "market_is_open (ps ! j) hour" by simp_all
    then have "0.0001 \<le> price (tick_market_loop R rnd hour ts k' ps ! j)" for k'
      by (rule Cons.IH)
    with Suc show ?thesis by simp
  qed
qed

lemma admin_randomize_loop_nth:
  "i < length ps \<Longrightarrow>
     admin_randomize_loop R rnd ts k ps ! i =
       (apply_change (rand_minus1_1 R (rnd (k + i)) * vol (ps ! i) * 5.0) (ps ! i))\<lparr>last_update := ts\<rparr>"
  by (induction ps arbitrary: k i) (auto simp: nth_Cons split: nat.splits)

lemma ensure_default_prices_frame:
  "accounts (ensure_default_prices ts s) = accounts s"
  "holdings (ensure_default_prices ts s) = holdings s"
  "fx (ensure_default_prices ts s) = fx s"
  by (simp_all add: ensure_default_prices_def)

lemma ensure_default_prices_seeded:
  "prices s \<noteq> [] \<Longrightarrow> ensure_default_prices ts s = s"
  by (simp add: ensure_default_prices_def)

lemma add_balance_frame:
  "holdings (add_balance i d s) = holdings s"
  "prices (add_balance i d s) = prices s"
  "fx (add_balance i d s) = fx s"
  "length (accounts (add_balance i d s)) = length (accounts s)"
  by (simp_all add: add_balance_def)

lemma add_balance_at:
  "i < length (accounts s) \<Longrightarrow> acc_no (accounts (add_balance i d s) ! i) = acc_no (accounts s ! i)"
  "i < length (accounts s) \<Longrightarrow> balance (accounts (add_balance i d s) ! i) = balance (accounts s ! i) + d"
  by (simp_all add: add_balance_def)

lemma cost_in_inr_for_purchase_spec:
  "cost_in_inr_for_purchase f p q = price p * q * spec_fx_rate f (market p)"
  by (simp add: cost_in_inr_for_purchase_def spec_fx_rate_def Let_def)

text \<open>The outcomes of a buy once the account index is valid and the asset is found.\<close>

lemma buy_closed:
  assumes "0 \<le> acc_idx" "nat acc_idx < length (accounts s0)"
    and "find_price_index (prices (ensure_default_prices ts s0)) a = Some pidx"
    and "\<not> market_is_open (prices (ensure_default_prices ts s0) ! pidx) hour"
  shows "buy_asset_loggedin ts hour g (Some a) (Num q) acc_idx s0 = (MarketClosed, ensure_default_prices ts s0)"
  using assms by (simp add: buy_asset_loggedin_def Let_def)

lemma buy_insufficient:
  assumes "0 \<le> acc_idx" "nat acc_idx < length (accounts s0)"
    and "find_price_index (prices (ensure_default_prices ts s0)) a = Some pidx"
    and "market_is_open (prices (ensure_default_prices ts s0) ! pidx) hour" "0 < q"
    and "balance (accounts s0 ! nat acc_idx)
           < cost_in_inr_for_purchase (fx s0) (prices (ensure_default_prices ts s0) ! pidx) q"
  shows "buy_asset_loggedin ts hour g (Some a) (Num q) acc_idx s0 = (InsufficientFunds, ensure_default_prices ts s0)"
  using assms by (simp add: buy_asset_loggedin_def Let_def ensure_default_prices_frame)

lemma buy_full:
  assumes "0 \<le> acc_idx" "nat acc_idx < length (accounts s0)"
    and "find_price_index (prices (ensure_default_prices ts s0)) a = Some pidx"
    and "market_is_open (prices (ensure_default_prices ts s0) ! pidx) hour" "0 < q"
    and "cost_in_inr_for_purchase (fx s0) (prices (ensure_default_prices ts s0) ! pidx) q
           \<le> balance (accounts s0 ! nat acc_idx)"
    and "find_holding_index (holdings s0) (acc_no (accounts s0 ! nat acc_idx)) a = None"
    and "MAX_HOLDINGS \<le> length (holdings s0)"
  shows "buy_asset_loggedin ts hour g (Some a) (Num q) acc_idx s0 =
           (HoldingsLimit,
            add_balance (nat acc_idx)
              (- cost_in_inr_for_purchase (fx s0) (prices (ensure_default_prices ts s0) ! pidx) q)
              (ensure_default_prices ts s0))"
  using assms find_price_index_Some [OF assms(3)]
  by (simp add: buy_asset_loggedin_def Let_def ensure_default_prices_frame add_balance_frame
      add_balance_at)

lemma buy_first:
  assumes "0 \<le> acc_idx" "nat acc_idx < length (accounts s0)"
    and "find_price_index (prices (ensure_default_prices ts s0)) a = Some pidx"
    and "market_is_open (prices (ensure_default_prices ts s0) ! pidx) hour" "0 < q"
    and "cost_in_inr_for_purchase (fx s0) (prices (ensure_default_prices ts s0) ! pidx) q
           \<le> balance (accounts s0 ! nat acc_idx)"
    and "find_holding_index (holdings s0) (acc_no (accounts s0 ! nat acc_idx)) a = None"
    and "length (holdings s0) < MAX_HOLDINGS"
  shows "buy_asset_loggedin ts hour g (Some a) (Num q) acc_idx s0 =
           (Ok,
            (add_balance (nat acc_idx)
              (- cost_in_inr_for_purchase (fx s0) (prices (ensure_default_prices ts s0) ! pidx) q)
              (ensure_default_prices ts s0))
            \<lparr>holdings := holdings s0 @
               [new_holding g (accounts s0 ! nat acc_idx) (prices (ensure_default_prices ts s0) ! pidx) q]\<rparr>)"
  using assms find_price_index_Some [OF assms(3)]
  by (simp add: buy_asset_loggedin_def Let_def ensure_default_prices_frame add_balance_frame
      add_balance_at new_holding_def)

lemma buy_more:
  assumes "0 \<le> acc_idx" "nat acc_idx < length (accounts s0)"
    and "find_price_index (prices (ensure_default_prices ts s0)) a = Some pidx"
    and "market_is_open (prices (ensure_default_prices ts s0) ! pidx) hour" "0 < q"
    and "cost_in_inr_for_purchase (fx s0) (prices (ensure_default_prices ts s0) ! pidx) q
           \<le> balance (accounts s0 ! nat acc_idx)"
    and "find_holding_index (holdings s0) (acc_no (accounts s0 ! nat acc_idx)) a = Some hidx"
  shows "buy_asset_loggedin ts hour g (Some a) (Num q) acc_idx s0 =
           (Ok,
            (add_balance (nat acc_idx)
              (- cost_in_inr_for_purchase (fx s0) (prices (ensure_default_prices ts s0) ! pidx) q)
              (ensure_default_prices ts s0))
            \<lparr>holdings := (holdings s0)
               [hidx := increase_holding (prices (ensure_default_prices ts s0) ! pidx) q
                          (holdings s0 ! hidx)]\<rparr>)"
  using assms find_price_index_Some [OF assms(3)]
  by (simp add: buy_asset_loggedin_def Let_def ensure_default_prices_frame add_balance_frame
      add_balance_at)

lemma buy_rejects_bad_quantity:
  "qty_le_zero q \<Longrightarrow>
     fst (buy_asset_loggedin ts hour g buf q acc_idx s0) \<noteq> Ok
     \<and> accounts (snd (buy_asset_loggedin ts hour g buf q acc_idx s0)) = accounts s0
     \<and> holdings (snd (buy_asset_loggedin ts hour g buf q acc_idx s0)) = holdings s0"
  by (simp add: buy_asset_loggedin_def Let_def ensure_default_prices_frame
      split: option.splits)

text \<open>The outcomes of a sell once the account index is valid and the asset is found.\<close>

lemma sell_no_position:
  assumes "0 \<le> acc_idx" "nat acc_idx < length (accounts s0)"
    and "find_price_index (prices (ensure_default_prices ts s0)) a = Some pidx"
    and "find_holding_index (holdings s0) (acc_no (accounts s0 ! nat acc_idx)) a = None"
  shows "sell_asset_loggedin ts (Some a) (Num q) acc_idx s0 = (NoSuchPosition, ensure_default_prices ts s0)"
  using assms by (simp add: sell_asset_loggedin_def Let_def ensure_default_prices_frame)

lemma sell_bad_quantity:
  assumes "0 \<le> acc_idx" "nat acc_idx < length (accounts s0)"
    and "find_price_index (prices (ensure_default_prices ts s0)) a = Some pidx"
    and "find_holding_index (holdings s0) (acc_no (accounts s0 ! nat acc_idx)) a = Some hidx"
    and "q \<le> 0 \<or> qty (holdings s0 ! hidx) < q"
  shows "sell_asset_loggedin ts (Some a) (Num q) acc_idx s0 = (InvalidQuantity, ensure_default_prices ts s0)"
  using assms by (auto simp add: sell_asset_loggedin_def Let_def ensure_default_prices_frame)

lemma sell_all:
  assumes "0 \<le> acc_idx" "nat acc_idx < length (accounts s0)"
    and "find_price_index (prices (ensure_default_prices ts s0)) a = Some pidx"
    and "find_holding_index (holdings s0) (acc_no (accounts s0 ! nat acc_idx)) a = Some hidx"
    and "0 < q" "q \<le> qty (holdings s0 ! hidx)"
    and "qty (holdings s0 ! hidx) - q \<le> 0.000001"
  shows "sell_asset_loggedin ts (Some a) (Num q) acc_idx s0 =
           (Ok, add_balance (nat acc_idx)
                  (cost_in_inr_for_purchase (fx s0) (prices (ensure_default_prices ts s0) ! pidx) q)
                  ((ensure_default_prices ts s0)\<lparr>holdings := remove_holding hidx (holdings s0)\<rparr>))"
  using assms
  by (simp add: sell_asset_loggedin_def Let_def ensure_default_prices_frame remove_holding_update)

lemma sell_part:
  assumes "0 \<le> acc_idx" "nat acc_idx < length (accounts s0)"
    and "find_price_index (prices (ensure_default_prices ts s0)) a = Some pidx"
    and "find_holding_index (holdings s0) (acc_no (accounts s0 ! nat acc_idx)) a = Some hidx"
    and "0 < q" "q \<le> qty (holdings s0 ! hidx)"
    and "0.000001 < qty (holdings s0 ! hidx) - q"
  shows "sell_asset_loggedin ts (Some a) (Num q) acc_idx s0 =
           (Ok, add_balance (nat acc_idx)
                  (cost_in_inr_for_purchase (fx s0) (prices (ensure_default_prices ts s0) ! pidx) q)
                  ((ensure_default_prices ts s0)
                     \<lparr>holdings := (holdings s0)[hidx := (holdings s0 ! hidx)\<lparr>qty := qty (holdings s0 ! hidx) - q\<rparr>]\<rparr>))"
  using assms
  by (simp add: sell_asset_loggedin_def Let_def ensure_default_prices_frame)

lemma length_remove_holding:
  "i < length hs \<Longrightarrow> Suc (length (remove_holding i hs)) = length hs"
  by (induction i hs rule: remove_holding.induct) auto


text \<open>Evaluating the example desk.\<close>

lemma desk_aapl_facts:
  "accounts desk_aapl = [alice]"
  "ensure_default_prices ts desk_aapl = desk_aapl"
  "find_price_index (prices desk_aapl) ''AAPL'' = Some 2"
  "find_price_index (prices desk_aapl) ''TCS'' = Some 1"
  "acc_no alice = 1001"
  "holdings desk_aapl = [aapl_row]"
  "find_holding_index [aapl_row] 1001 ''AAPL'' = Some 0"
  "find_holding_index [aapl_row] 1001 ''TCS'' = None"
  by (simp_all add: desk_aapl_def desk_def default_prices_def strncpy_def alice_def aapl_row_def
      ensure_default_prices_def)


lemma desk_facts:
  "accounts desk = [alice]"
  "holdings desk = []"
  "fx desk = fx_initial"
  "ensure_default_prices ts desk = desk"
  "find_price_index (prices desk) ''AAPL'' = Some 2"
  "prices desk ! 2 = \<lparr>asset_id = ''AAPL'', asset_name = ''Apple Inc'', price = 190,
       vol = 0.02, market = ''US'', last_update = ''2025-01-06 10:00:00'', open_hour = 9, close_hour = 17\<rparr>"
  by (simp_all add: desk_def default_prices_def strncpy_def ensure_default_prices_def)


lemma find_holding_index_update_same:
  "find_holding_index hs n a = Some i \<Longrightarrow> h_acc_no h' = n \<Longrightarrow> h_asset_id h' = a \<Longrightarrow>
     find_holding_index (hs[i := h']) n a = Some i"
  by (induction hs arbitrary: i) (auto split: if_splits)

lemma increase_holding_fields:
  "h_acc_no (increase_holding pr q h) = h_acc_no h"
  "h_asset_id (increase_holding pr q h) = h_asset_id h"
  "qty (increase_holding pr q h) = qty h + q"
  "0 < qty h + q \<Longrightarrow>
     avg_price (increase_holding pr q h) = (avg_price h * qty h + price pr * q) / (qty h + q)"
  by (simp_all add: increase_holding_def Let_def)

text \<open>A first buy followed by a second buy of the same asset by the same account; between
  the two the catalog and the rates may have changed.\<close>

lemma two_buys:
  assumes idx: "0 \<le> acc_idx" "nat acc_idx < length (accounts s0)"
    and n: "n = acc_no (accounts s0 ! nat acc_idx)"
    and a1: "find_price_index (prices (ensure_default_prices ts1 s0)) a = Some pidx1"
    and la: "length a < 15"
    and o1: "market_is_open (prices (ensure_default_prices ts1 s0) ! pidx1) hour1"
    and q1: "0 < q1"
    and c1: "cost_in_inr_for_purchase (fx s0) (prices (ensure_default_prices ts1 s0) ! pidx1) q1
              \<le> balance (accounts s0 ! nat acc_idx)"
    and new: "find_holding_index (holdings s0) n a = None"
    and room: "length (holdings s0) < MAX_HOLDINGS"
    and r1: "r1 = buy_asset_loggedin ts1 hour1 g1 (Some a) (Num q1) acc_idx s0"
    and s1: "accounts s1 = accounts (snd r1)" "holdings s1 = holdings (snd r1)"
    and a2: "find_price_index (prices (ensure_default_prices ts2 s1)) a = Some pidx2"
    and o2: "market_is_open (prices (ensure_default_prices ts2 s1) ! pidx2) hour2"
    and q2: "0 < q2"
    and c2: "cost_in_inr_for_purchase (fx s1) (prices (ensure_default_prices ts2 s1) ! pidx2) q2
              \<le> balance (accounts s1 ! nat acc_idx)"
    and r2: "r2 = buy_asset_loggedin ts2 hour2 g2 (Some a) (Num q2) acc_idx s1"
    and p1: "p1 = price (prices (ensure_default_prices ts1 s0) ! pidx1)"
    and p2: "p2 = price (prices (ensure_default_prices ts2 s1) ! pidx2)"
    and k: "k = length (holdings s0)"
  shows "fst r1 = Ok \<and> find_holding_index (holdings (snd r1)) n a = Some k
     \<and> qty (holdings (snd r1) ! k) = q1 \<and> avg_price (holdings (snd r1) ! k) = p1
     \<and> fst r2 = Ok \<and> find_holding_index (holdings (snd r2)) n a = Some k
     \<and> qty (holdings (snd r2) ! k) = q1 + q2
     \<and> avg_price (holdings (snd r2) ! k) = (q1 * p1 + q2 * p2) / (q1 + q2)"
proof -
  let ?i = "nat acc_idx"
  let ?pr1 = "prices (ensure_default_prices ts1 s0) ! pidx1"
  let ?pr2 = "prices (ensure_default_prices ts2 s1) ! pidx2"
  let ?h = "new_holding g1 (accounts s0 ! ?i) ?pr1 q1"
  from new n have new': "find_holding_index (holdings s0) (acc_no (accounts s0 ! ?i)) a = None"
    by simp
  have id1: "asset_id ?pr1 = a"
    using find_price_index_Some [OF a1] by simp
  have h: "h_acc_no ?h = n" "h_asset_id ?h = a" "qty ?h = q1" "avg_price ?h = p1"
    using la by (simp_all add: new_holding_def strncpy_uninit_def id1 n p1)
  have first: "fst r1 = Ok" "holdings (snd r1) = holdings s0 @ [?h]"
    "accounts (snd r1) = accounts (add_balance ?i (- cost_in_inr_for_purchase (fx s0) ?pr1 q1) (ensure_default_prices ts1 s0))"
    using buy_first [OF idx a1 o1 q1 c1 new' room] r1 by simp_all
  have f1: "find_holding_index (holdings (snd r1)) n a = Some k"
    unfolding first(2) k by (rule find_holding_index_append_new [OF new h(1,2)])
  have at1: "holdings (snd r1) ! k = ?h"
    by (simp add: first(2) k)
  have len1: "?i < length (accounts (ensure_default_prices ts1 s0))"
    using idx(2) by (simp add: ensure_default_prices_frame)
  have idx2: "?i < length (accounts s1)"
    using idx(2) by (simp add: s1(1) first(3) add_balance_frame ensure_default_prices_frame)
  have n2: "acc_no (accounts s1 ! ?i) = n"
    using add_balance_at(1) [OF len1] by (simp add: s1(1) first(3) n ensure_default_prices_frame)
  have held: "find_holding_index (holdings s1) (acc_no (accounts s1 ! ?i)) a = Some k"
    using f1 by (simp add: n2 s1(2))
  have second: "fst r2 = Ok"
    "holdings (snd r2) = (holdings s1)[k := increase_holding ?pr2 q2 (holdings s1 ! k)]"
    using buy_more [OF idx(1) idx2 a2 o2 q2 c2 held] r2 by simp_all
  have klen: "k < length (holdings s1)"
    by (simp add: s1(2) first(2) k)
  have at0: "holdings s1 ! k = ?h"
    using at1 by (simp add: s1(2))
  have at2: "holdings (snd r2) ! k = increase_holding ?pr2 q2 ?h"
    using klen by (simp add: second(2) at0)
  have f2: "find_holding_index (holdings (snd r2)) n a = Some k"
    unfolding second(2)
  proof (rule find_holding_index_update_same)
    show "find_holding_index (holdings s1) n a = Some k"
      using f1 by (simp add: s1(2))
    show "h_acc_no (increase_holding ?pr2 q2 (holdings s1 ! k)) = n"
      by (simp add: increase_holding_fields at0 h)
    show "h_asset_id (increase_holding ?pr2 q2 (holdings s1 ! k)) = a"
      by (simp add: increase_holding_fields at0 h)
  qed
  have pos: "0 < qty ?h + q2"
    using q1 q2 by (simp add: h)
  have avg: "avg_price (holdings (snd r2) ! k) = (q1 * p1 + q2 * p2) / (q1 + q2)"
    unfolding at2 increase_holding_fields(4) [OF pos] by (simp add: h p2 mult.commute)
  have q: "qty (holdings (snd r2) ! k) = q1 + q2"
    unfolding at2 by (simp add: increase_holding_fields h)
  from first(1) f1 at1 h second(1) f2 q avg show ?thesis by simp
qed

lemma desk_after_first_facts:
  "accounts desk_after_first = [alice\<lparr>balance := 18270\<rparr>]"
  "holdings desk_after_first =
     [\<lparr>h_acc_no = 1001, h_asset_id = ''AAPL'', h_asset_name = ''Apple Inc'', qty = 2,
       avg_price = 190, h_market = ''US''\<rparr>]"
  "fx desk_after_first = fx_initial"
proof -
  have idx: "(0::int) \<le> 0" "nat 0 < length (accounts desk)"
    by (simp_all add: desk_facts)
  have aapl: "find_price_index (prices (ensure_default_prices '''' desk)) ''AAPL'' = Some 2"
    by (simp add: desk_facts)
  have opn: "market_is_open (prices (ensure_default_prices '''' desk) ! 2) 10"
    by (simp add: desk_facts market_is_open_def)
  have cost: "cost_in_inr_for_purchase (fx desk) (prices (ensure_default_prices '''' desk) ! 2) 2 = 31730"
    by (simp add: desk_facts cost_in_inr_for_purchase_def fx_initial_def)
  have aff: "cost_in_inr_for_purchase (fx desk) (prices (ensure_default_prices '''' desk) ! 2) 2
      \<le> balance (accounts desk ! nat 0)"
    unfolding cost by (simp add: desk_facts alice_def)
  have new: "find_holding_index (holdings desk) (acc_no (accounts desk ! nat 0)) ''AAPL'' = None"
    by (simp add: desk_facts)
  have room: "length (holdings desk) < MAX_HOLDINGS"
    by (simp add: desk_facts MAX_HOLDINGS_def)
  have q: "(0::real) < 2" by simp
  note b = buy_first [OF idx aapl opn q aff new room, unfolded cost, of stack_garbage]
  show "accounts desk_after_first = [alice\<lparr>balance := 18270\<rparr>]"
    unfolding desk_after_first_def b
    by (simp add: add_balance_def desk_facts alice_def)
  show "holdings desk_after_first =
     [\<lparr>h_acc_no = 1001, h_asset_id = ''AAPL'', h_asset_name = ''Apple Inc'', qty = 2,
       avg_price = 190, h_market = ''US''\<rparr>]"
    unfolding desk_after_first_def b
    by (simp add: desk_facts new_holding_def strncpy_uninit_def alice_def)
  show "fx desk_after_first = fx_initial"
    unfolding desk_after_first_def b
    by (simp add: add_balance_frame desk_facts)
qed

lemma desk_repriced_facts:
  "accounts desk_repriced = [alice\<lparr>balance := 18270\<rparr>]"
  "holdings desk_repriced = holdings desk_after_first"
  "fx desk_repriced = fx_initial"
  "ensure_default_prices ts desk_repriced = desk_repriced"
  "find_price_index (prices desk_repriced) ''AAPL'' = Some 2"
  "prices desk_repriced ! 2 = \<lparr>asset_id = ''AAPL'', asset_name = ''Apple Inc'', price = 200,
       vol = 0.02, market = ''US'', last_update = ''2025-01-06 10:00:00'', open_hour = 9, close_hour = 17\<rparr>"
  by (simp_all add: desk_repriced_def desk_after_first_facts ensure_default_prices_def)
     (simp_all add: desk_def default_prices_def strncpy_def)


lemma full_book_facts:
  "accounts full_book = [alice]"
  "holdings full_book = replicate 2000 other_row"
  "fx full_book = fx_initial"
  "ensure_default_prices ts full_book = full_book"
  "find_price_index (prices full_book) ''AAPL'' = Some 2"
  "prices full_book ! 2 = prices desk ! 2"
  by (simp_all add: full_book_def desk_facts ensure_default_prices_def)
     (simp_all add: desk_def default_prices_def)


text \<open>Apart from the holdings limit, a trade that does not succeed leaves the cash and
  the positions of the model's state as they were (for the outcome \<open>BookedNonFinite\<close> see
  the conventions: the code itself has written a non-finite value).\<close>

lemma buy_failure_frame:
  assumes "fst (buy_asset_loggedin ts hour g buf q acc_idx s0) \<noteq> Ok"
    and "fst (buy_asset_loggedin ts hour g buf q acc_idx s0) \<noteq> HoldingsLimit"
  shows "accounts (snd (buy_asset_loggedin ts hour g buf q acc_idx s0)) = accounts s0
     \<and> holdings (snd (buy_asset_loggedin ts hour g buf q acc_idx s0)) = holdings s0"
  using assms
  by (auto simp add: buy_asset_loggedin_def Let_def ensure_default_prices_frame
      split: option.splits if_splits read_double.splits)

lemma sell_failure_frame:
  assumes "fst (sell_asset_loggedin ts buf q acc_idx s0) \<noteq> Ok"
  shows "accounts (snd (sell_asset_loggedin ts buf q acc_idx s0)) = accounts s0
     \<and> holdings (snd (sell_asset_loggedin ts buf q acc_idx s0)) = holdings s0"
  using assms
  by (auto simp add: sell_asset_loggedin_def Let_def ensure_default_prices_frame
      split: option.splits if_splits read_double.splits)

text \<open>A sell of a finite quantity \<open>q\<close> of an asset of the catalog. Without a position of the
  account it fails with \<open>NoSuchPosition\<close>, and with \<open>q \<le> 0\<close> or \<open>q\<close> above the held quantity
  it fails with \<open>InvalidQuantity\<close>; in both cases positions and cash are as before. A sell
  that leaves at most 0.000001 removes the position's row, and no row for the pair is left
  when the book had only that one. Any other sell lowers the quantity by \<open>q\<close> and keeps the
  average price.\<close>

lemma sell_finite_quantity:
  assumes "0 \<le> acc_idx" and "nat acc_idx < length (accounts s0)"
    and "find_price_index (prices (ensure_default_prices ts s0)) a = Some pidx"
    and "n = acc_no (accounts s0 ! nat acc_idx)"
    and "r = sell_asset_loggedin ts (Some a) (Num q) acc_idx s0"
  shows
    "(find_holding_index (holdings s0) n a = None \<longrightarrow>
        fst r = NoSuchPosition \<and> holdings (snd r) = holdings s0 \<and> accounts (snd r) = accounts s0)
     \<and> (find_holding_index (holdings s0) n a = Some hidx \<longrightarrow>
        (let h = holdings s0 ! hidx in
         (q \<le> 0 \<or> qty h < q \<longrightarrow>
            fst r = InvalidQuantity \<and> holdings (snd r) = holdings s0 \<and> accounts (snd r) = accounts s0)
         \<and> (0 < q \<and> q \<le> qty h \<and> qty h - q \<le> 0.000001 \<longrightarrow>
            fst r = Ok
            \<and> holdings (snd r) = take hidx (holdings s0) @ drop (Suc hidx) (holdings s0)
            \<and> Suc (length (holdings (snd r))) = length (holdings s0)
            \<and> (find_holding_index (drop (Suc hidx) (holdings s0)) n a = None \<longrightarrow>
                 find_holding_index (holdings (snd r)) n a = None))
         \<and> (0 < q \<and> q \<le> qty h \<and> 0.000001 < qty h - q \<longrightarrow>
            fst r = Ok
            \<and> holdings (snd r) = (holdings s0)[hidx := h\<lparr>qty := qty h - q\<rparr>]
            \<and> qty (holdings (snd r) ! hidx) = qty h - q
            \<and> avg_price (holdings (snd r) ! hidx) = avg_price h)))"
proof -
  note pre = assms(1-3)
  have none: "fst r = NoSuchPosition \<and> holdings (snd r) = holdings s0 \<and> accounts (snd r) = accounts s0"
    if "find_holding_index (holdings s0) n a = None"
    using sell_no_position [OF pre, of q] that assms(4,5) by (simp add: ensure_default_prices_frame)
  have bad: "fst r = InvalidQuantity \<and> holdings (snd r) = holdings s0 \<and> accounts (snd r) = accounts s0"
    if "find_holding_index (holdings s0) n a = Some hidx" "q \<le> 0 \<or> qty (holdings s0 ! hidx) < q" for hidx
    using sell_bad_quantity [OF pre, of hidx q] that assms(4,5) by (simp add: ensure_default_prices_frame)
  have full: "fst r = Ok
      \<and> holdings (snd r) = take hidx (holdings s0) @ drop (Suc hidx) (holdings s0)
      \<and> Suc (length (holdings (snd r))) = length (holdings s0)
      \<and> (find_holding_index (drop (Suc hidx) (holdings s0)) n a = None \<longrightarrow>
            find_holding_index (holdings (snd r)) n a = None)"
    if f: "find_holding_index (holdings s0) n a = Some hidx"
      and q: "0 < q" "q \<le> qty (holdings s0 ! hidx)" "qty (holdings s0 ! hidx) - q \<le> 0.000001" for hidx
  proof -
    from f assms(4) have f': "find_holding_index (holdings s0) (acc_no (accounts s0 ! nat acc_idx)) a = Some hidx"
      by simp
    have r: "fst r = Ok" "holdings (snd r) = remove_holding hidx (holdings s0)"
      using sell_all [OF pre f' q] assms(5) by (simp_all add: add_balance_frame)
    from find_holding_index_Some [OF f] have "hidx < length (holdings s0)" by simp
    then have "Suc (length (remove_holding hidx (holdings s0))) = length (holdings s0)"
      by (rule length_remove_holding)
    with r find_holding_index_removed [OF f] show ?thesis
      by (simp add: remove_holding_take_drop [symmetric])
  qed
  have part: "fst r = Ok
      \<and> holdings (snd r) = (holdings s0)[hidx := (holdings s0 ! hidx)\<lparr>qty := qty (holdings s0 ! hidx) - q\<rparr>]
      \<and> qty (holdings (snd r) ! hidx) = qty (holdings s0 ! hidx) - q
      \<and> avg_price (holdings (snd r) ! hidx) = avg_price (holdings s0 ! hidx)"
    if f: "find_holding_index (holdings s0) n a = Some hidx"
      and q: "0 < q" "q \<le> qty (holdings s0 ! hidx)" "0.000001 < qty (holdings s0 ! hidx) - q" for hidx
  proof -
    from f assms(4) have f': "find_holding_index (holdings s0) (acc_no (accounts s0 ! nat acc_idx)) a = Some hidx"
      by simp
    from find_holding_index_Some [OF f] have "hidx < length (holdings s0)" by simp
    with sell_part [OF pre f' q] assms(5) show ?thesis
      by (simp add: add_balance_frame)
  qed
  from none bad full part show ?thesis
    unfolding Let_def by blast
qed

text \<open>Alice holds two AAPL: selling both empties the book, selling one leaves one at the
  average price 190, selling three is refused, and so is selling TCS, which she does not
  hold.\<close>

lemma sell_finite_quantity_example:
  "fst (sell_asset_loggedin '''' (Some ''AAPL'') (Num 2) 0 desk_aapl) = Ok
   \<and> holdings (snd (sell_asset_loggedin '''' (Some ''AAPL'') (Num 2) 0 desk_aapl)) = []
   \<and> fst (sell_asset_loggedin '''' (Some ''AAPL'') (Num 1) 0 desk_aapl) = Ok
   \<and> qty (holdings (snd (sell_asset_loggedin '''' (Some ''AAPL'') (Num 1) 0 desk_aapl)) ! 0) = 1
   \<and> avg_price (holdings (snd (sell_asset_loggedin '''' (Some ''AAPL'') (Num 1) 0 desk_aapl)) ! 0) = 190
   \<and> fst (sell_asset_loggedin '''' (Some ''AAPL'') (Num 3) 0 desk_aapl) = InvalidQuantity
   \<and> holdings (snd (sell_asset_loggedin '''' (Some ''AAPL'') (Num 3) 0 desk_aapl)) = [aapl_row]
   \<and> fst (sell_asset_loggedin '''' (Some ''TCS'') (Num 1) 0 desk_aapl) = NoSuchPosition
   \<and> holdings (snd (sell_asset_loggedin '''' (Some ''TCS'') (Num 1) 0 desk_aapl)) = [aapl_row]"
proof -
  have idx: "(0::int) \<le> 0" "nat 0 < length (accounts desk_aapl)"
    by (simp_all add: desk_aapl_facts)
  have aapl: "find_price_index (prices (ensure_default_prices '''' desk_aapl)) ''AAPL'' = Some 2"
    and tcs: "find_price_index (prices (ensure_default_prices '''' desk_aapl)) ''TCS'' = Some 1"
    by (simp_all add: desk_aapl_facts)
  have n: "1001 = acc_no (accounts desk_aapl ! nat 0)"
    by (simp add: desk_aapl_facts)
  have row: "qty aapl_row = 2" "avg_price aapl_row = 190" "h_acc_no aapl_row = 1001"
    "h_asset_id aapl_row = ''AAPL''"
    by (simp_all add: aapl_row_def)
  note all = sell_finite_quantity [OF idx aapl n refl, of 2 0]
    and part = sell_finite_quantity [OF idx aapl n refl, of 1 0]
    and over = sell_finite_quantity [OF idx aapl n refl, of 3 0]
    and none = sell_finite_quantity [OF idx tcs n refl, of 1 0]
  from all have "fst (sell_asset_loggedin '''' (Some ''AAPL'') (Num 2) 0 desk_aapl) = Ok
      \<and> holdings (snd (sell_asset_loggedin '''' (Some ''AAPL'') (Num 2) 0 desk_aapl)) = []"
    by (simp add: desk_aapl_facts row)
  moreover from part have "fst (sell_asset_loggedin '''' (Some ''AAPL'') (Num 1) 0 desk_aapl) = Ok
      \<and> qty (holdings (snd (sell_asset_loggedin '''' (Some ''AAPL'') (Num 1) 0 desk_aapl)) ! 0) = 1
      \<and> avg_price (holdings (snd (sell_asset_loggedin '''' (Some ''AAPL'') (Num 1) 0 desk_aapl)) ! 0) = 190"
    by (simp add: desk_aapl_facts row)
  moreover from over have "fst (sell_asset_loggedin '''' (Some ''AAPL'') (Num 3) 0 desk_aapl) = InvalidQuantity
      \<and> holdings (snd (sell_asset_loggedin '''' (Some ''AAPL'') (Num 3) 0 desk_aapl)) = [aapl_row]"
    by (simp add: desk_aapl_facts row)
  moreover from none have "fst (sell_asset_loggedin '''' (Some ''TCS'') (Num 1) 0 desk_aapl) = NoSuchPosition
      \<and> holdings (snd (sell_asset_loggedin '''' (Some ''TCS'') (Num 1) 0 desk_aapl)) = [aapl_row]"
    by (simp add: desk_aapl_facts row)
  ultimately show ?thesis by simp
qed

text \<open>Average cost for an asset whose id is shorter than the 15 characters \<^verbatim>\<open>strncpy\<close>
  copies. A first buy of \<open>q1\<close> units at the catalog price \<open>p1\<close> creates a position with
  quantity \<open>q1\<close> and average price \<open>p1\<close>; a later buy of \<open>q2\<close> units of the same asset by the
  same account at the price \<open>p2\<close> leaves the position with quantity \<open>q1 + q2\<close> and average
  price \<open>(q1 * p1 + q2 * p2) / (q1 + q2)\<close>. A buy of a quantity that is zero or negative is
  rejected and changes neither cash nor positions.\<close>

lemma average_cost_short_id:
  "(0 \<le> acc_idx \<and> nat acc_idx < length (accounts s0)
      \<and> n = acc_no (accounts s0 ! nat acc_idx)
      \<and> find_price_index (prices (ensure_default_prices ts1 s0)) a = Some pidx1
      \<and> length a < 15
      \<and> p1 = price (prices (ensure_default_prices ts1 s0) ! pidx1)
      \<and> market_is_open (prices (ensure_default_prices ts1 s0) ! pidx1) hour1
      \<and> 0 < q1
      \<and> cost_in_inr_for_purchase (fx s0) (prices (ensure_default_prices ts1 s0) ! pidx1) q1
           \<le> balance (accounts s0 ! nat acc_idx)
      \<and> find_holding_index (holdings s0) n a = None
      \<and> length (holdings s0) < MAX_HOLDINGS
      \<and> k = length (holdings s0)
      \<and> r1 = buy_asset_loggedin ts1 hour1 g1 (Some a) (Num q1) acc_idx s0
      \<and> accounts s1 = accounts (snd r1) \<and> holdings s1 = holdings (snd r1)
      \<and> find_price_index (prices (ensure_default_prices ts2 s1)) a = Some pidx2
      \<and> p2 = price (prices (ensure_default_prices ts2 s1) ! pidx2)
      \<and> market_is_open (prices (ensure_default_prices ts2 s1) ! pidx2) hour2
      \<and> 0 < q2
      \<and> cost_in_inr_for_purchase (fx s1) (prices (ensure_default_prices ts2 s1) ! pidx2) q2
           \<le> balance (accounts s1 ! nat acc_idx)
      \<and> r2 = buy_asset_loggedin ts2 hour2 g2 (Some a) (Num q2) acc_idx s1
    \<longrightarrow>
      fst r1 = Ok \<and> find_holding_index (holdings (snd r1)) n a = Some k
      \<and> qty (holdings (snd r1) ! k) = q1 \<and> avg_price (holdings (snd r1) ! k) = p1
      \<and> fst r2 = Ok \<and> find_holding_index (holdings (snd r2)) n a = Some k
      \<and> qty (holdings (snd r2) ! k) = q1 + q2
      \<and> avg_price (holdings (snd r2) ! k) = (q1 * p1 + q2 * p2) / (q1 + q2))
   \<and> (q \<le> 0 \<longrightarrow>
        fst (buy_asset_loggedin ts hour g buf (Num q) i s) \<noteq> Ok
        \<and> accounts (snd (buy_asset_loggedin ts hour g buf (Num q) i s)) = accounts s
        \<and> holdings (snd (buy_asset_loggedin ts hour g buf (Num q) i s)) = holdings s)"
proof (intro conjI impI)
  assume H: "0 \<le> acc_idx \<and> nat acc_idx < length (accounts s0)
      \<and> n = acc_no (accounts s0 ! nat acc_idx)
      \<and> find_price_index (prices (ensure_default_prices ts1 s0)) a = Some pidx1
      \<and> length a < 15
      \<and> p1 = price (prices (ensure_default_prices ts1 s0) ! pidx1)
      \<and> market_is_open (prices (ensure_default_prices ts1 s0) ! pidx1) hour1
      \<and> 0 < q1
      \<and> cost_in_inr_for_purchase (fx s0) (prices (ensure_default_prices ts1 s0) ! pidx1) q1
           \<le> balance (accounts s0 ! nat acc_idx)
      \<and> find_holding_index (holdings s0) n a = None
      \<and> length (holdings s0) < MAX_HOLDINGS
      \<and> k = length (holdings s0)
      \<and> r1 = buy_asset_loggedin ts1 hour1 g1 (Some a) (Num q1) acc_idx s0
      \<and> accounts s1 = accounts (snd r1) \<and> holdings s1 = holdings (snd r1)
      \<and> find_price_index (prices (ensure_default_prices ts2 s1)) a = Some pidx2
      \<and> p2 = price (prices (ensure_default_prices ts2 s1) ! pidx2)
      \<and> market_is_open (prices (ensure_default_prices ts2 s1) ! pidx2) hour2
      \<and> 0 < q2
      \<and> cost_in_inr_for_purchase (fx s1) (prices (ensure_default_prices ts2 s1) ! pidx2) q2
           \<le> balance (accounts s1 ! nat acc_idx)
      \<and> r2 = buy_asset_loggedin ts2 hour2 g2 (Some a) (Num q2) acc_idx s1"
  then have "fst r1 = Ok \<and> find_holding_index (holdings (snd r1)) n a = Some k
      \<and> qty (holdings (snd r1) ! k) = q1 \<and> avg_price (holdings (snd r1) ! k) = p1
      \<and> fst r2 = Ok \<and> find_holding_index (holdings (snd r2)) n a = Some k
      \<and> qty (holdings (snd r2) ! k) = q1 + q2
      \<and> avg_price (holdings (snd r2) ! k) = (q1 * p1 + q2 * p2) / (q1 + q2)"
    by (intro two_buys [where ?s0.0 = s0 and ?s1.0 = s1 and acc_idx = acc_idx and ?ts1.0 = ts1
          and ?ts2.0 = ts2 and ?pidx1.0 = pidx1 and ?pidx2.0 = pidx2 and ?hour1.0 = hour1
          and ?hour2.0 = hour2 and ?g1.0 = g1 and ?g2.0 = g2]) (elim conjE, assumption)+
  then show "fst r1 = Ok" "find_holding_index (holdings (snd r1)) n a = Some k"
    "qty (holdings (snd r1) ! k) = q1" "avg_price (holdings (snd r1) ! k) = p1"
    "fst r2 = Ok" "find_holding_index (holdings (snd r2)) n a = Some k"
    "qty (holdings (snd r2) ! k) = q1 + q2"
    "avg_price (holdings (snd r2) ! k) = (q1 * p1 + q2 * p2) / (q1 + q2)"
    by simp_all
next
  assume "q \<le> 0"
  then show "fst (buy_asset_loggedin ts hour g buf (Num q) i s) \<noteq> Ok"
    "accounts (snd (buy_asset_loggedin ts hour g buf (Num q) i s)) = accounts s"
    "holdings (snd (buy_asset_loggedin ts hour g buf (Num q) i s)) = holdings s"
    using buy_rejects_bad_quantity [of "Num q" ts hour g buf i s] by simp_all
qed

text \<open>The scenario of the specification: two AAPL at 190, then one more at 200, give a
  position of three at 580 / 3 = 193.33...; buys of 0 and of -1 units are rejected.\<close>

lemma average_cost_short_id_example:
  "fst (buy_asset_loggedin '''' 10 stack_garbage (Some ''AAPL'') (Num 2) 0 desk) = Ok
   \<and> qty (holdings desk_after_first ! 0) = 2
   \<and> avg_price (holdings desk_after_first ! 0) = 190
   \<and> fst (buy_asset_loggedin '''' 11 stack_garbage (Some ''AAPL'') (Num 1) 0 desk_repriced) = Ok
   \<and> qty (holdings (snd (buy_asset_loggedin '''' 11 stack_garbage (Some ''AAPL'') (Num 1) 0 desk_repriced)) ! 0) = 3
   \<and> avg_price (holdings (snd (buy_asset_loggedin '''' 11 stack_garbage (Some ''AAPL'') (Num 1) 0 desk_repriced)) ! 0) = 580 / 3
   \<and> fst (buy_asset_loggedin '''' 10 stack_garbage (Some ''AAPL'') (Num 0) 0 desk) \<noteq> Ok
   \<and> fst (buy_asset_loggedin '''' 10 stack_garbage (Some ''AAPL'') (Num (- 1)) 0 desk) \<noteq> Ok"
proof -
  let ?r1 = "buy_asset_loggedin '''' 10 stack_garbage (Some ''AAPL'') (Num 2) 0 desk"
  let ?r2 = "buy_asset_loggedin '''' 11 stack_garbage (Some ''AAPL'') (Num 1) 0 desk_repriced"
  have hyps: "(0::int) \<le> 0 \<and> nat 0 < length (accounts desk)
      \<and> 1001 = acc_no (accounts desk ! nat 0)
      \<and> find_price_index (prices (ensure_default_prices '''' desk)) ''AAPL'' = Some 2
      \<and> length ''AAPL'' < 15
      \<and> 190 = price (prices (ensure_default_prices '''' desk) ! 2)
      \<and> market_is_open (prices (ensure_default_prices '''' desk) ! 2) 10
      \<and> (0::real) < 2
      \<and> cost_in_inr_for_purchase (fx desk) (prices (ensure_default_prices '''' desk) ! 2) 2
           \<le> balance (accounts desk ! nat 0)
      \<and> find_holding_index (holdings desk) 1001 ''AAPL'' = None
      \<and> length (holdings desk) < MAX_HOLDINGS
      \<and> 0 = length (holdings desk)
      \<and> ?r1 = buy_asset_loggedin '''' 10 stack_garbage (Some ''AAPL'') (Num 2) 0 desk
      \<and> accounts desk_repriced = accounts (snd ?r1) \<and> holdings desk_repriced = holdings (snd ?r1)
      \<and> find_price_index (prices (ensure_default_prices '''' desk_repriced)) ''AAPL'' = Some 2
      \<and> 200 = price (prices (ensure_default_prices '''' desk_repriced) ! 2)
      \<and> market_is_open (prices (ensure_default_prices '''' desk_repriced) ! 2) 11
      \<and> (0::real) < 1
      \<and> cost_in_inr_for_purchase (fx desk_repriced) (prices (ensure_default_prices '''' desk_repriced) ! 2) 1
           \<le> balance (accounts desk_repriced ! nat 0)
      \<and> ?r2 = buy_asset_loggedin '''' 11 stack_garbage (Some ''AAPL'') (Num 1) 0 desk_repriced"
    by (simp add: desk_facts desk_repriced_facts desk_after_first_facts
        desk_after_first_def [symmetric] alice_def MAX_HOLDINGS_def market_is_open_def
        cost_in_inr_for_purchase_def fx_initial_def)
  from average_cost_short_id [THEN conjunct1, rule_format, OF hyps]
  have "fst ?r1 = Ok \<and> qty (holdings (snd ?r1) ! 0) = 2 \<and> avg_price (holdings (snd ?r1) ! 0) = 190
      \<and> fst ?r2 = Ok \<and> qty (holdings (snd ?r2) ! 0) = 2 + 1
      \<and> avg_price (holdings (snd ?r2) ! 0) = (2 * 190 + 1 * 200) / (2 + 1)"
    by simp
  moreover have "fst (buy_asset_loggedin '''' 10 stack_garbage (Some ''AAPL'') (Num 0) 0 desk) \<noteq> Ok"
    using average_cost_short_id [THEN conjunct2, of 0 "''''" 10 stack_garbage "Some ''AAPL''" 0 desk] by simp
  moreover have "fst (buy_asset_loggedin '''' 10 stack_garbage (Some ''AAPL'') (Num (- 1)) 0 desk) \<noteq> Ok"
    using average_cost_short_id [THEN conjunct2, of "- 1" "''''" 10 stack_garbage "Some ''AAPL''" 0 desk] by simp
  ultimately show ?thesis
    by (simp add: desk_after_first_def)
qed

section \<open>The claims\<close>

subsection \<open>C9: market-hours semantics\<close>

text \<open>
  Claim C9, as amended. \<open>market_is_open\<close> holds exactly when the hour lies in the half-open
  interval from \<open>open_hour\<close> to \<open>close_hour\<close> if \<open>open_hour \<le> close_hour\<close>, and when the
  hour is at least \<open>open_hour\<close> or below \<open>close_hour\<close> if \<open>open_hour > close_hour\<close> (the
  window wraps past midnight). With \<open>close_hour = 24\<close> the upper bound never closes the
  market during a day (hours 0 to 23): an asset with \<open>open_hour \<le> 24\<close> is then open exactly
  from \<open>open_hour\<close> on, and it is always open when \<open>open_hour = 0\<close>. An asset with \<open>open_hour = 20\<close> and
  \<open>close_hour = 4\<close> is open at hours 23 and 2 and closed at hour 10.
\<close>

theorem market_hours_semantics:
  "(open_hour p \<le> close_hour p \<longrightarrow>
      market_is_open p hour = (open_hour p \<le> hour \<and> hour < close_hour p))
   \<and> (close_hour p < open_hour p \<longrightarrow>
      market_is_open p hour = (open_hour p \<le> hour \<or> hour < close_hour p))
   \<and> (close_hour p = 24 \<and> open_hour p \<le> 24 \<and> 0 \<le> hour \<and> hour \<le> 23 \<longrightarrow>
      market_is_open p hour = (open_hour p \<le> hour))
   \<and> (close_hour p = 24 \<and> open_hour p = 0 \<and> 0 \<le> hour \<and> hour \<le> 23 \<longrightarrow>
      market_is_open p hour)
   \<and> (open_hour p = 20 \<and> close_hour p = 4 \<longrightarrow>
      market_is_open p 23 \<and> market_is_open p 2 \<and> \<not> market_is_open p 10)"
  by (auto simp: market_is_open_def)

text \<open>The theorem at the overnight window 20 to 4, the always-on default asset (BTC, 0 to
  24), an asset open 9 to 24, and the closing hour of INFY.\<close>

theorem market_hours_semantics_witness:
  "market_is_open night_asset 23 \<and> market_is_open night_asset 2 \<and> \<not> market_is_open night_asset 10
   \<and> market_is_open (default_prices '''' ! 4) 3
   \<and> market_is_open evening_asset 12 \<and> \<not> market_is_open evening_asset 8
   \<and> \<not> market_is_open (default_prices '''' ! 0) 15"
  using market_hours_semantics [of night_asset 23]
    market_hours_semantics [of "default_prices '''' ! 4" 3]
    market_hours_semantics [of evening_asset 12]
    market_hours_semantics [of evening_asset 8]
    market_hours_semantics [of "default_prices '''' ! 0" 15]
  by (simp add: night_asset_def evening_asset_def default_prices_def)

text \<open>Claim C9 as stated says that \<open>close_hour = 24\<close> means always open. An asset that
  opens at 9 and closes at 24 is closed at hour 5.\<close>

theorem close_24_not_always_open_counterexample:
  "close_hour evening_asset = 24 \<and> (0::int) \<le> 5 \<and> (5::int) \<le> 23 \<and> \<not> market_is_open evening_asset 5"
  by (simp add: evening_asset_def market_is_open_def)

subsection \<open>C10: a position whose asset left the catalog has no unrealized profit or loss\<close>

text \<open>
  Claim C10. For a position whose asset id is absent from the price catalog, the current
  native price falls back to the position's own average price, both legs are converted to
  INR by the same rule for the position's market, and the position's contribution
  \<open>qty * (cur_inr - avg_inr)\<close> to the unrealized profit and loss is exactly zero: the loop
  of \<open>compute_unrealized_pl_inr\<close> leaves the running total as it was.
\<close>

theorem unrealized_pl_absent_asset_zero:
  "find_price_index ps (h_asset_id h) = None \<Longrightarrow>
     cur_price_native ps h = avg_price h
     \<and> cur_inr f ps h = avg_inr f h
     \<and> qty h * (cur_inr f ps h - avg_inr f h) = 0
     \<and> unrealized_pl_loop f ps n (h # hs) pl = unrealized_pl_loop f ps n hs pl"
  by (simp add: cur_price_native_def cur_inr_def avg_inr_def)

text \<open>An EU position in an asset that the default catalog does not list: both legs are
  8820 INR, and the account's unrealized profit and loss is 0.\<close>

theorem unrealized_pl_absent_asset_zero_witness:
  "find_price_index (prices desk) (h_asset_id eu_orphan_row) = None
   \<and> cur_inr (fx desk) (prices desk) eu_orphan_row = 8820
   \<and> avg_inr (fx desk) eu_orphan_row = 8820
   \<and> compute_unrealized_pl_inr (desk\<lparr>holdings := [eu_orphan_row]\<rparr>) 1001 = 0"
proof -
  have absent: "find_price_index (prices desk) (h_asset_id eu_orphan_row) = None"
    by (simp add: desk_def default_prices_def eu_orphan_row_def strncpy_def)
  have "avg_inr (fx desk) eu_orphan_row = 8820"
    by (simp add: avg_inr_def desk_def fx_initial_def eu_orphan_row_def)
  with absent unrealized_pl_absent_asset_zero [OF absent, of "fx desk" 1001 "[]" 0]
  show ?thesis by (simp add: compute_unrealized_pl_inr_def)
qed

subsection \<open>C8: price positivity\<close>

text \<open>
  Claim C8. Whatever the random draws and the volatilities, every price a tick writes is
  at least the floor 0.0001: after the administrative big-move tick every asset's price
  is at least the floor, after the ordinary tick every open asset's price is at least the
  floor, and since the ordinary tick leaves the closed assets alone, a catalog whose prices
  are all strictly positive stays so.
\<close>

theorem tick_keeps_prices_positive:
  "(\<forall>p \<in> set (prices (admin_randomize_all_prices R rnd ts s)). 0.0001 \<le> price p)
   \<and> (\<forall>i < length (prices s). market_is_open (prices s ! i) hour \<longrightarrow>
         0.0001 \<le> price (prices (tick_market_once R rnd hour ts s) ! i))
   \<and> ((\<forall>p \<in> set (prices s). 0 < price p) \<longrightarrow>
         (\<forall>p \<in> set (prices (tick_market_once R rnd hour ts s)). 0 < price p))
   \<and> (\<forall>p \<in> set (prices (admin_randomize_all_prices R rnd ts s)). 0 < price p)"
proof -
  let ?ps = "prices s"
  have admin: "0.0001 \<le> price p"
    if "p \<in> set (prices (admin_randomize_all_prices R rnd ts s))" for p
  proof -
    from that obtain i where i: "i < length ?ps" and p: "p = admin_randomize_loop R rnd ts 0 ?ps ! i"
      by (auto simp: admin_randomize_all_prices_def in_set_conv_nth length_admin_randomize_loop)
    show ?thesis
      using price_apply_change_floor [of "rand_minus1_1 R (rnd (0 + i)) * vol (?ps ! i) * 5.0" "?ps ! i"]
      unfolding p admin_randomize_loop_nth [OF i] by simp
  qed
  have opened: "0.0001 \<le> price (prices (tick_market_once R rnd hour ts s) ! i)"
    if "i < length ?ps" "market_is_open (?ps ! i) hour" for i
    using tick_market_loop_open [OF that] by (simp add: tick_market_once_def)
  have inv: "0 < price p"
    if pos: "\<forall>p \<in> set ?ps. 0 < price p" and mem: "p \<in> set (prices (tick_market_once R rnd hour ts s))" for p
  proof -
    from mem obtain i where i: "i < length ?ps" and p: "p = tick_market_loop R rnd hour ts 0 ?ps ! i"
      by (auto simp: tick_market_once_def in_set_conv_nth length_tick_market_loop)
    show ?thesis
    proof (cases "market_is_open (?ps ! i) hour")
      case True
      from tick_market_loop_open [OF i True, of R rnd ts 0] show ?thesis unfolding p by simp
    next
      case False
      from tick_market_loop_closed [OF i False, of R rnd ts 0] pos i show ?thesis unfolding p by simp
    qed
  qed
  have admin_pos: "0 < price p"
    if "p \<in> set (prices (admin_randomize_all_prices R rnd ts s))" for p
    using admin [OF that] by simp
  from admin opened inv admin_pos show ?thesis by blast
qed

text \<open>An adversarial case: with volatility 3 and the lowest draw the scaled price of an
  open asset would be negative, and the tick leaves it at the floor or above; at hour 10
  the asset is closed and keeps its positive price.\<close>

theorem tick_keeps_prices_positive_witness:
  "0 < price night_asset
   \<and> market_is_open night_asset 23
   \<and> 0.0001 \<le> price (prices (tick_market_once 32767 bottom_draws 23 '''' (desk\<lparr>prices := [night_asset]\<rparr>)) ! 0)
   \<and> 0 < price (prices (tick_market_once 32767 bottom_draws 10 '''' (desk\<lparr>prices := [night_asset]\<rparr>)) ! 0)
   \<and> 0 < price (prices (admin_randomize_all_prices 32767 bottom_draws '''' (desk\<lparr>prices := [night_asset]\<rparr>)) ! 0)"
proof -
  let ?s = "desk\<lparr>prices := [night_asset]\<rparr>"
  have pos: "\<forall>p \<in> set (prices ?s). 0 < price p"
    by (simp add: night_asset_def)
  have opn: "market_is_open (prices ?s ! 0) 23"
    by (simp add: night_asset_def market_is_open_def)
  have len: "0 < length (prices ?s)"
    by simp
  have mem_tick: "prices (tick_market_once 32767 bottom_draws 10 '''' ?s) ! 0
      \<in> set (prices (tick_market_once 32767 bottom_draws 10 '''' ?s))"
    by (simp add: tick_market_once_def length_tick_market_loop)
  have mem_admin: "prices (admin_randomize_all_prices 32767 bottom_draws '''' ?s) ! 0
      \<in> set (prices (admin_randomize_all_prices 32767 bottom_draws '''' ?s))"
    by (simp add: admin_randomize_all_prices_def)
  from tick_keeps_prices_positive [of 32767 bottom_draws "''''" ?s 23] opn len
  have a: "0.0001 \<le> price (prices (tick_market_once 32767 bottom_draws 23 '''' ?s) ! 0)"
    by blast
  from tick_keeps_prices_positive [of 32767 bottom_draws "''''" ?s 10] pos mem_tick
  have b: "0 < price (prices (tick_market_once 32767 bottom_draws 10 '''' ?s) ! 0)"
    by blast
  from tick_keeps_prices_positive [of 32767 bottom_draws "''''" ?s 10] mem_admin
  have c: "0 < price (prices (admin_randomize_all_prices 32767 bottom_draws '''' ?s) ! 0)"
    by blast
  from a b c opn show ?thesis
    by (simp add: night_asset_def)
qed

subsection \<open>C7: which assets a tick touches\<close>

text \<open>
  Claim C7, as amended. The ordinary tick changes only assets whose market is open: every
  asset whose market is closed at tick time keeps its record (price and \<open>last_update\<close>
  included). The administrative big-move tick does not look at the market hours: it
  applies a change of draw times volatility times 5 to every asset of the catalog, open or
  closed, and stamps its \<open>last_update\<close>. Neither tick adds or removes an asset.
\<close>

theorem tick_frame_condition:
  "length (prices (tick_market_once R rnd hour ts s)) = length (prices s)
   \<and> length (prices (admin_randomize_all_prices R rnd ts' s)) = length (prices s)
   \<and> (\<forall>i < length (prices s). \<not> market_is_open (prices s ! i) hour \<longrightarrow>
         prices (tick_market_once R rnd hour ts s) ! i = prices s ! i)
   \<and> (\<forall>i < length (prices s).
         prices (admin_randomize_all_prices R rnd ts' s) ! i =
           (apply_change (rand_minus1_1 R (rnd i) * vol (prices s ! i) * 5.0) (prices s ! i))
             \<lparr>last_update := ts'\<rparr>)"
  using admin_randomize_loop_nth [of _ "prices s" R rnd ts' 0]
  by (simp add: tick_market_once_def admin_randomize_all_prices_def length_tick_market_loop
      length_admin_randomize_loop tick_market_loop_closed)

text \<open>AAPL (open 9 to 17) at hour 20: the ordinary tick leaves the record alone, the
  administrative tick with the highest draw moves the price from 190 to 209.\<close>

theorem tick_frame_condition_witness:
  "\<not> market_is_open (prices desk ! 2) 20
   \<and> prices (tick_market_once 32767 top_draws 20 ''2025-01-06 20:00:00'' desk) ! 2 = prices desk ! 2
   \<and> price (prices (admin_randomize_all_prices 32767 top_draws ''2025-01-06 20:00:00'' desk) ! 2) = 209
   \<and> last_update (prices (admin_randomize_all_prices 32767 top_draws ''2025-01-06 20:00:00'' desk) ! 2)
       = ''2025-01-06 20:00:00''"
proof -
  have len: "(2::nat) < length (prices desk)"
    by (simp add: desk_def default_prices_def)
  have closed: "\<not> market_is_open (prices desk ! 2) 20"
    by (simp add: desk_def default_prices_def market_is_open_def)
  have rec: "prices desk ! 2 = \<lparr>asset_id = ''AAPL'', asset_name = ''Apple Inc'', price = 190,
       vol = 0.02, market = ''US'', last_update = ''2025-01-06 10:00:00'', open_hour = 9, close_hour = 17\<rparr>"
    by (simp add: desk_def default_prices_def strncpy_def)
  have draw: "rand_minus1_1 32767 (top_draws 2) = 1"
    by (simp add: rand_minus1_1_def top_draws_def)
  from tick_frame_condition [of 32767 top_draws 20 "''2025-01-06 20:00:00''" desk "''2025-01-06 20:00:00''"]
    len closed
  have t: "prices (tick_market_once 32767 top_draws 20 ''2025-01-06 20:00:00'' desk) ! 2 = prices desk ! 2"
    and a: "prices (admin_randomize_all_prices 32767 top_draws ''2025-01-06 20:00:00'' desk) ! 2 =
           (apply_change (rand_minus1_1 32767 (top_draws 2) * vol (prices desk ! 2) * 5.0) (prices desk ! 2))
             \<lparr>last_update := ''2025-01-06 20:00:00''\<rparr>"
    by blast+
  show ?thesis
    unfolding a t draw rec using closed unfolding rec
    by (simp add: apply_change_def Let_def)
qed

text \<open>Claim C7 as stated says that the administrative tick leaves closed assets
  unchanged. At hour 20 the market of AAPL is closed, yet the administrative tick changes
  its price and its \<open>last_update\<close>.\<close>

theorem admin_tick_changes_closed_asset_counterexample:
  "\<not> market_is_open (prices desk ! 2) 20
   \<and> price (prices desk ! 2) = 190
   \<and> price (prices (admin_randomize_all_prices 32767 top_draws ''2025-01-06 20:00:00'' desk) ! 2) = 209
   \<and> last_update (prices (admin_randomize_all_prices 32767 top_draws ''2025-01-06 20:00:00'' desk) ! 2)
       \<noteq> last_update (prices desk ! 2)"
  by (simp add: desk_def default_prices_def strncpy_def market_is_open_def
      admin_randomize_all_prices_def apply_change_def Let_def rand_minus1_1_def top_draws_def)

subsection \<open>C6: sell validation\<close>

text \<open>
  Claim C6 says that a sell requires a position with \<open>qty_held \<ge> qty > 0\<close> and fails, with
  the position's quantity unchanged, otherwise. The guard of \<open>sell_asset_loggedin\<close> is
  \<^verbatim>\<open>qty <= 0 || qty > h->qty\<close>, and both comparisons are false when the typed line is
  \<^verbatim>\<open>nan\<close>: the sell is not refused, and the code goes on to subtract NaN from the position's
  quantity and to add NaN to the cash. Alice holds two AAPL; her sell of NaN AAPL is
  booked, while a sell of three AAPL or of zero AAPL is refused with \<open>InvalidQuantity\<close>.
\<close>

theorem sell_of_nan_is_booked:
  "find_holding_index (holdings desk_aapl) (acc_no (accounts desk_aapl ! 0)) ''AAPL'' = Some 0
   \<and> qty (holdings desk_aapl ! 0) = 2
   \<and> \<not> qty_le_zero NaN
   \<and> \<not> qty_gt NaN (qty (holdings desk_aapl ! 0))
   \<and> fst (sell_asset_loggedin '''' (Some ''AAPL'') NaN 0 desk_aapl) = BookedNonFinite
   \<and> fst (sell_asset_loggedin '''' (Some ''AAPL'') NaN 0 desk_aapl) \<noteq> InvalidQuantity
   \<and> fst (sell_asset_loggedin '''' (Some ''AAPL'') (Num 3) 0 desk_aapl) = InvalidQuantity
   \<and> fst (sell_asset_loggedin '''' (Some ''AAPL'') (Num 0) 0 desk_aapl) = InvalidQuantity"
  by (simp add: sell_asset_loggedin_def Let_def desk_aapl_facts aapl_row_def alice_def)

subsection \<open>C4: buy cost arithmetic\<close>

text \<open>
  Claim C4, as amended. For a buy of \<open>q > 0\<close> units of an asset of the catalog whose market
  is open, the cost in INR is \<open>price * q * fx_rate(market)\<close> with the FX Converter's factor
  (1 for IN, INR per USD for US, INR per EUR for EU, 1 for any other market). The buy fails
  with \<open>InsufficientFunds\<close> exactly when the cash is below the cost, and then cash and
  positions are as before. It is accepted exactly when the cash covers the cost and the
  position book can take the position (the account already holds the asset, or the book
  has fewer than \<open>MAX_HOLDINGS\<close> rows); with a full book and no position in the asset a buy
  that the cash covers is refused with the holdings-limit message. After an accepted buy
  the cash is the cash before minus the cost.
\<close>

theorem buy_cost_arithmetic:
  assumes "0 \<le> acc_idx" and "nat acc_idx < length (accounts s0)"
    and "find_price_index (prices (ensure_default_prices ts s0)) a = Some pidx"
    and "pr = prices (ensure_default_prices ts s0) ! pidx"
    and "market_is_open pr hour" and "0 < q"
    and "cash = balance (accounts s0 ! nat acc_idx)"
    and "cost_inr = price pr * q * spec_fx_rate (fx s0) (market pr)"
    and "held = find_holding_index (holdings s0) (acc_no (accounts s0 ! nat acc_idx)) a"
    and "r = buy_asset_loggedin ts hour g (Some a) (Num q) acc_idx s0"
  shows
    "cost_in_inr_for_purchase (fx s0) pr q = cost_inr
     \<and> (fst r = InsufficientFunds \<longleftrightarrow> cash < cost_inr)
     \<and> (cash < cost_inr \<longrightarrow> accounts (snd r) = accounts s0 \<and> holdings (snd r) = holdings s0)
     \<and> (fst r = Ok \<longleftrightarrow>
          cost_inr \<le> cash \<and> (held \<noteq> None \<or> length (holdings s0) < MAX_HOLDINGS))
     \<and> (fst r = HoldingsLimit \<longleftrightarrow>
          cost_inr \<le> cash \<and> held = None \<and> MAX_HOLDINGS \<le> length (holdings s0))
     \<and> (fst r = Ok \<longrightarrow> balance (accounts (snd r) ! nat acc_idx) = cash - cost_inr)"
proof -
  let ?s = "ensure_default_prices ts s0"
  let ?i = "nat acc_idx"
  note pre = assms(1-3)
  have cost: "cost_in_inr_for_purchase (fx s0) pr q = cost_inr"
    by (simp add: assms(8) cost_in_inr_for_purchase_spec)
  have o: "market_is_open (prices ?s ! pidx) hour"
    using assms(4,5) by simp
  have c: "cost_in_inr_for_purchase (fx s0) (prices ?s ! pidx) q = cost_inr"
    using cost assms(4) by simp
  have low: "fst r = InsufficientFunds \<and> accounts (snd r) = accounts s0 \<and> holdings (snd r) = holdings s0"
    if "cash < cost_inr"
  proof -
    from that have "balance (accounts s0 ! ?i) < cost_in_inr_for_purchase (fx s0) (prices ?s ! pidx) q"
      by (simp add: c assms(7))
    from buy_insufficient [OF pre o assms(6) this] assms(10) show ?thesis
      by (simp add: ensure_default_prices_frame)
  qed
  have high: "(held \<noteq> None \<or> length (holdings s0) < MAX_HOLDINGS \<longrightarrow>
        fst r = Ok \<and> balance (accounts (snd r) ! ?i) = cash - cost_inr)
      \<and> (held = None \<and> MAX_HOLDINGS \<le> length (holdings s0) \<longrightarrow> fst r = HoldingsLimit)"
    if "cost_inr \<le> cash"
  proof -
    from that have aff: "cost_in_inr_for_purchase (fx s0) (prices ?s ! pidx) q \<le> balance (accounts s0 ! ?i)"
      by (simp add: c assms(7))
    have len: "?i < length (accounts ?s)"
      using assms(2) by (simp add: ensure_default_prices_frame)
    have bal: "balance (accounts (add_balance ?i (- cost_inr) ?s) ! ?i) = cash - cost_inr"
      using add_balance_at(2) [OF len, of "- cost_inr"]
      by (simp add: ensure_default_prices_frame assms(7))
    show ?thesis
    proof (cases held)
      case (Some hidx)
      then have h: "find_holding_index (holdings s0) (acc_no (accounts s0 ! ?i)) a = Some hidx"
        by (simp add: assms(9))
      from buy_more [OF pre o assms(6) aff h] assms(10) bal Some show ?thesis
        by (simp add: c)
    next
      case None
      then have h: "find_holding_index (holdings s0) (acc_no (accounts s0 ! ?i)) a = None"
        by (simp add: assms(9))
      show ?thesis
      proof (cases "length (holdings s0) < MAX_HOLDINGS")
        case True
        from buy_first [OF pre o assms(6) aff h True] assms(10) bal None True show ?thesis
          by (simp add: c)
      next
        case False
        then have "MAX_HOLDINGS \<le> length (holdings s0)" by simp
        from buy_full [OF pre o assms(6) aff h this] assms(10) None False show ?thesis
          by (simp add: c)
      qed
    qed
  qed
  show ?thesis
  proof (cases "cash < cost_inr")
    case True
    with cost low show ?thesis by auto
  next
    case False
    then have "cost_inr \<le> cash" by simp
    from high [OF this] cost False show ?thesis
      by (cases "held = None"; cases "length (holdings s0) < MAX_HOLDINGS") auto
  qed
qed

text \<open>The scenario of the specification: AAPL at 190 USD with 83.5 INR per USD. Two units
  cost 31730 INR and take the cash from 50000 to 18270; four units cost 63460 INR and are
  refused for lack of funds; with a full book the two units are refused for lack of a row.\<close>

theorem buy_cost_arithmetic_witness:
  "fst (buy_asset_loggedin '''' 10 stack_garbage (Some ''AAPL'') (Num 2) 0 desk) = Ok
   \<and> cost_in_inr_for_purchase (fx desk) (prices desk ! 2) 2 = 31730
   \<and> balance (accounts desk ! 0) = 50000
   \<and> balance (accounts (snd (buy_asset_loggedin '''' 10 stack_garbage (Some ''AAPL'') (Num 2) 0 desk)) ! 0) = 18270
   \<and> fst (buy_asset_loggedin '''' 10 stack_garbage (Some ''AAPL'') (Num 4) 0 desk) = InsufficientFunds
   \<and> accounts (snd (buy_asset_loggedin '''' 10 stack_garbage (Some ''AAPL'') (Num 4) 0 desk)) = accounts desk
   \<and> fst (buy_asset_loggedin '''' 10 stack_garbage (Some ''AAPL'') (Num 2) 0 full_book) = HoldingsLimit"
proof -
  have idx: "(0::int) \<le> 0" "nat 0 < length (accounts desk)"
    by (simp_all add: desk_facts)
  have aapl: "find_price_index (prices (ensure_default_prices '''' desk)) ''AAPL'' = Some 2"
    by (simp add: desk_facts)
  have pr: "prices desk ! 2 = prices (ensure_default_prices '''' desk) ! 2"
    by (simp add: desk_facts(4))
  have opn: "market_is_open (prices desk ! 2) 10"
    by (simp add: desk_facts market_is_open_def)
  have cash: "balance (accounts desk ! nat 0) = 50000"
    by (simp add: desk_facts alice_def)
  have cost2: "price (prices desk ! 2) * 2 * spec_fx_rate (fx desk) (market (prices desk ! 2)) = 31730"
    and cost4: "price (prices desk ! 2) * 4 * spec_fx_rate (fx desk) (market (prices desk ! 2)) = 63460"
    by (simp_all add: desk_facts spec_fx_rate_def fx_initial_def)
  have room: "length (holdings desk) < MAX_HOLDINGS"
    by (simp add: desk_facts MAX_HOLDINGS_def)
  from buy_cost_arithmetic [OF idx aapl pr opn _ cash [symmetric] cost2 [symmetric] refl refl,
      of stack_garbage] room
  have two: "fst (buy_asset_loggedin '''' 10 stack_garbage (Some ''AAPL'') (Num 2) 0 desk) = Ok
     \<and> cost_in_inr_for_purchase (fx desk) (prices desk ! 2) 2 = 31730
     \<and> balance (accounts (snd (buy_asset_loggedin '''' 10 stack_garbage (Some ''AAPL'') (Num 2) 0 desk)) ! 0) = 18270"
    by simp
  from buy_cost_arithmetic [OF idx aapl pr opn _ cash [symmetric] cost4 [symmetric] refl refl,
      of stack_garbage]
  have four: "fst (buy_asset_loggedin '''' 10 stack_garbage (Some ''AAPL'') (Num 4) 0 desk) = InsufficientFunds
     \<and> accounts (snd (buy_asset_loggedin '''' 10 stack_garbage (Some ''AAPL'') (Num 4) 0 desk)) = accounts desk"
    by simp
  have fidx: "(0::int) \<le> 0" "nat 0 < length (accounts full_book)"
    by (simp_all add: full_book_facts)
  have faapl: "find_price_index (prices (ensure_default_prices '''' full_book)) ''AAPL'' = Some 2"
    by (simp add: full_book_facts)
  have fpr: "prices desk ! 2 = prices (ensure_default_prices '''' full_book) ! 2"
    by (simp add: full_book_facts)
  have fcash: "balance (accounts full_book ! nat 0) = 50000"
    by (simp add: full_book_facts alice_def)
  have fcost: "price (prices desk ! 2) * 2 * spec_fx_rate (fx full_book) (market (prices desk ! 2)) = 31730"
    by (simp add: full_book_facts desk_facts spec_fx_rate_def fx_initial_def)
  have fnew: "find_holding_index (holdings full_book) (acc_no (accounts full_book ! nat 0)) ''AAPL'' = None"
    unfolding full_book_facts
    by (rule find_holding_index_replicate) (simp add: other_row_def alice_def)
  have ffull: "MAX_HOLDINGS \<le> length (holdings full_book)"
    by (simp add: full_book_facts MAX_HOLDINGS_def)
  from buy_cost_arithmetic [OF fidx faapl fpr opn _ fcash [symmetric] fcost [symmetric] fnew [symmetric] refl,
      of stack_garbage] ffull
  have full: "fst (buy_asset_loggedin '''' 10 stack_garbage (Some ''AAPL'') (Num 2) 0 full_book) = HoldingsLimit"
    by simp
  from two four full cash show ?thesis by simp
qed

text \<open>Claim C4 as stated says that a valid buy is accepted exactly when the cash covers
  the cost and fails with \<open>InsufficientFunds\<close> otherwise. With a full position book, a
  customer with 50000 INR who holds no AAPL asks for two AAPL at an open market; the cost is
  31730 INR, and the buy is neither accepted nor refused for lack of funds.\<close>

theorem buy_full_book_not_accepted_counterexample:
  "market_is_open (prices full_book ! 2) 10
   \<and> cost_in_inr_for_purchase (fx full_book) (prices full_book ! 2) 2 = 31730
   \<and> balance (accounts full_book ! 0) = 50000
   \<and> fst (buy_asset_loggedin '''' 10 stack_garbage (Some ''AAPL'') (Num 2) 0 full_book) \<noteq> Ok
   \<and> fst (buy_asset_loggedin '''' 10 stack_garbage (Some ''AAPL'') (Num 2) 0 full_book)
        \<noteq> InsufficientFunds"
proof -
  have idx: "(0::int) \<le> 0" "nat 0 < length (accounts full_book)"
    by (simp_all add: full_book_facts)
  have aapl: "find_price_index (prices (ensure_default_prices '''' full_book)) ''AAPL'' = Some 2"
    by (simp add: full_book_facts)
  have opn: "market_is_open (prices (ensure_default_prices '''' full_book) ! 2) 10"
    by (simp add: full_book_facts desk_facts market_is_open_def)
  have q: "(0::real) < 2" by simp
  have cost: "cost_in_inr_for_purchase (fx full_book) (prices (ensure_default_prices '''' full_book) ! 2) 2 = 31730"
    by (simp add: full_book_facts desk_facts cost_in_inr_for_purchase_def fx_initial_def)
  have cash: "balance (accounts full_book ! nat 0) = 50000"
    by (simp add: full_book_facts alice_def)
  have aff: "cost_in_inr_for_purchase (fx full_book) (prices (ensure_default_prices '''' full_book) ! 2) 2
      \<le> balance (accounts full_book ! nat 0)"
    unfolding cost cash by simp
  have new: "find_holding_index (holdings full_book) (acc_no (accounts full_book ! nat 0)) ''AAPL'' = None"
    unfolding full_book_facts
    by (rule find_holding_index_replicate) (simp add: other_row_def alice_def)
  have full: "MAX_HOLDINGS \<le> length (holdings full_book)"
    by (simp add: full_book_facts MAX_HOLDINGS_def)
  note b = buy_full [OF idx aapl opn q aff new full, of stack_garbage]
  from opn cost cash show ?thesis
    unfolding b by (simp add: full_book_facts)
qed

subsection \<open>C5: average cost\<close>

text \<open>
  Claim C5 says that a second buy of an asset by the same account adds to the position of
  the first: the quantities sum and the average price is the weighted average. The first
  buy fills an uninitialised local \<^verbatim>\<open>Holding\<close> with
  \<^verbatim>\<open>strncpy(h.asset_id, pr->asset_id, sizeof h.asset_id - 1)\<close> and sets no terminating NUL
  (as \<^verbatim>\<open>log_transaction\<close> does after its own \<^verbatim>\<open>strncpy\<close> calls). For an asset id of 15
  characters the stored id therefore runs on into whatever the stack held in the last
  byte of the field, here the character \<^verbatim>\<open>?\<close>, and on into the name that follows it; the
  second buy does not find the row and appends another. After two buys of one unit at 100
  Alice has two rows of quantity 1 under the overlong id, and no position of quantity 2.
\<close>

theorem second_buy_of_long_id_appends_row:
  "find_price_index (prices desk_long) ''ABCDEFGHIJKLMNO'' = Some 6
   \<and> length (asset_id (prices desk_long ! 6)) = 15
   \<and> fst (buy_asset_loggedin '''' 10 long_garbage (Some ''ABCDEFGHIJKLMNO'') (Num 1) 0 desk_long) = Ok
   \<and> map h_asset_id (holdings desk_long_first) = [''ABCDEFGHIJKLMNO?Fifteen Letters'']
   \<and> map qty (holdings desk_long_first) = [1]
   \<and> fst (buy_asset_loggedin '''' 10 long_garbage (Some ''ABCDEFGHIJKLMNO'') (Num 1) 0 desk_long_first) = Ok
   \<and> map h_asset_id (holdings (snd (buy_asset_loggedin '''' 10 long_garbage
          (Some ''ABCDEFGHIJKLMNO'') (Num 1) 0 desk_long_first)))
        = [''ABCDEFGHIJKLMNO?Fifteen Letters'', ''ABCDEFGHIJKLMNO?Fifteen Letters'']
   \<and> map qty (holdings (snd (buy_asset_loggedin '''' 10 long_garbage
          (Some ''ABCDEFGHIJKLMNO'') (Num 1) 0 desk_long_first)))
        = [1, 1]"
proof -
  have first: "buy_asset_loggedin '''' 10 long_garbage (Some ''ABCDEFGHIJKLMNO'') (Num 1) 0 desk_long =
      (Ok, desk_long\<lparr>accounts := [alice\<lparr>balance := 49900\<rparr>],
             holdings := [\<lparr>h_acc_no = 1001, h_asset_id = ''ABCDEFGHIJKLMNO?Fifteen Letters'',
               h_asset_name = ''Fifteen Letters'', qty = 1, avg_price = 100, h_market = ''IN''\<rparr>]\<rparr>)"
    by (simp add: buy_asset_loggedin_def Let_def desk_long_def desk_def default_prices_def
        long_asset_def strncpy_def ensure_default_prices_def market_is_open_def
        cost_in_inr_for_purchase_def add_balance_def alice_def MAX_HOLDINGS_def new_holding_def
        strncpy_uninit_def long_garbage_def fx_initial_def)
  have state: "desk_long_first = desk_long\<lparr>accounts := [alice\<lparr>balance := 49900\<rparr>],
             holdings := [\<lparr>h_acc_no = 1001, h_asset_id = ''ABCDEFGHIJKLMNO?Fifteen Letters'',
               h_asset_name = ''Fifteen Letters'', qty = 1, avg_price = 100, h_market = ''IN''\<rparr>]\<rparr>"
    by (simp add: desk_long_first_def first)
  have second: "fst (buy_asset_loggedin '''' 10 long_garbage (Some ''ABCDEFGHIJKLMNO'') (Num 1) 0 desk_long_first) = Ok"
    "holdings (snd (buy_asset_loggedin '''' 10 long_garbage (Some ''ABCDEFGHIJKLMNO'') (Num 1) 0 desk_long_first)) =
       [\<lparr>h_acc_no = 1001, h_asset_id = ''ABCDEFGHIJKLMNO?Fifteen Letters'',
         h_asset_name = ''Fifteen Letters'', qty = 1, avg_price = 100, h_market = ''IN''\<rparr>,
        \<lparr>h_acc_no = 1001, h_asset_id = ''ABCDEFGHIJKLMNO?Fifteen Letters'',
         h_asset_name = ''Fifteen Letters'', qty = 1, avg_price = 100, h_market = ''IN''\<rparr>]"
    unfolding state
    by (simp_all add: buy_asset_loggedin_def Let_def desk_long_def desk_def default_prices_def
        long_asset_def strncpy_def ensure_default_prices_def market_is_open_def
        cost_in_inr_for_purchase_def add_balance_def alice_def MAX_HOLDINGS_def new_holding_def
        strncpy_uninit_def long_garbage_def fx_initial_def)
  have cat: "find_price_index (prices desk_long) ''ABCDEFGHIJKLMNO'' = Some 6"
    "length (asset_id (prices desk_long ! 6)) = 15"
    by (simp_all add: desk_long_def desk_def default_prices_def long_asset_def strncpy_def)
  show ?thesis
    unfolding second by (simp add: cat first state)
qed

subsection \<open>C1: a buy at the holdings limit\<close>

text \<open>
  Claim C1 says that a buy or sell that fails, for whatever reason, a capacity limit
  included, changes neither the cash nor the position book. \<open>buy_asset_loggedin\<close> debits
  the cash before it tests \<open>hold_count >= MAX_HOLDINGS\<close>: with a full book, a buy of two
  AAPL by a customer who holds none ends with \<open>HoldingsLimit\<close>, no position, and the cash
  down from 50000 to 18270.
\<close>

theorem buy_at_holdings_limit_debits_cash:
  "fst (buy_asset_loggedin '''' 10 stack_garbage (Some ''AAPL'') (Num 2) 0 full_book) = HoldingsLimit
   \<and> length (holdings full_book) = MAX_HOLDINGS
   \<and> balance (accounts full_book ! 0) = 50000
   \<and> balance (accounts (snd (buy_asset_loggedin '''' 10 stack_garbage (Some ''AAPL'') (Num 2) 0 full_book)) ! 0) = 18270
   \<and> holdings (snd (buy_asset_loggedin '''' 10 stack_garbage (Some ''AAPL'') (Num 2) 0 full_book)) = holdings full_book"
proof -
  have idx: "(0::int) \<le> 0" "nat 0 < length (accounts full_book)"
    by (simp_all add: full_book_facts)
  have aapl: "find_price_index (prices (ensure_default_prices '''' full_book)) ''AAPL'' = Some 2"
    by (simp add: full_book_facts)
  have opn: "market_is_open (prices (ensure_default_prices '''' full_book) ! 2) 10"
    by (simp add: full_book_facts desk_facts market_is_open_def)
  have q: "(0::real) < 2" by simp
  have cost: "cost_in_inr_for_purchase (fx full_book) (prices (ensure_default_prices '''' full_book) ! 2) 2 = 31730"
    by (simp add: full_book_facts desk_facts cost_in_inr_for_purchase_def fx_initial_def)
  have aff: "cost_in_inr_for_purchase (fx full_book) (prices (ensure_default_prices '''' full_book) ! 2) 2
      \<le> balance (accounts full_book ! nat 0)"
    unfolding cost by (simp add: full_book_facts alice_def)
  have new: "find_holding_index (holdings full_book) (acc_no (accounts full_book ! nat 0)) ''AAPL'' = None"
    unfolding full_book_facts
    by (rule find_holding_index_replicate) (simp add: other_row_def alice_def)
  have full: "MAX_HOLDINGS \<le> length (holdings full_book)"
    by (simp add: full_book_facts MAX_HOLDINGS_def)
  note b = buy_full [OF idx aapl opn q aff new full, unfolded cost]
  show ?thesis
    unfolding b
    by (simp add: add_balance_def full_book_facts alice_def MAX_HOLDINGS_def)
qed

subsection \<open>C2: market hours and the two trade directions\<close>

text \<open>
  Claim C2 says that a buy and a sell on an asset whose market is closed both fail with
  \<open>MarketClosed\<close> and change nothing. At hour 20 the market of AAPL (open 9 to 17) is
  closed and a buy fails with \<open>MarketClosed\<close>; \<open>sell_asset_loggedin\<close> does not consult the
  market hours, so a sell of one of Alice's two AAPL succeeds whatever the hour: her cash
  goes from 50000 to 65865 and her position from 2 to 1.
\<close>

theorem sell_ignores_market_hours:
  "\<not> market_is_open (prices desk_aapl ! 2) 20
   \<and> fst (buy_asset_loggedin '''' 20 stack_garbage (Some ''AAPL'') (Num 1) 0 desk_aapl) = MarketClosed
   \<and> fst (sell_asset_loggedin '''' (Some ''AAPL'') (Num 1) 0 desk_aapl) = Ok
   \<and> balance (accounts desk_aapl ! 0) = 50000
   \<and> balance (accounts (snd (sell_asset_loggedin '''' (Some ''AAPL'') (Num 1) 0 desk_aapl)) ! 0) = 65865
   \<and> qty (holdings desk_aapl ! 0) = 2
   \<and> qty (holdings (snd (sell_asset_loggedin '''' (Some ''AAPL'') (Num 1) 0 desk_aapl)) ! 0) = 1"
proof -
  have idx: "(0::int) \<le> 0" "nat 0 < length (accounts desk_aapl)"
    by (simp_all add: desk_aapl_facts)
  have aapl: "find_price_index (prices (ensure_default_prices '''' desk_aapl)) ''AAPL'' = Some 2"
    by (simp add: desk_aapl_facts)
  have pr: "prices desk_aapl ! 2 = prices desk ! 2"
    by (simp add: desk_aapl_def)
  have closed: "\<not> market_is_open (prices (ensure_default_prices '''' desk_aapl) ! 2) 20"
    by (simp add: desk_aapl_facts pr desk_facts market_is_open_def)
  have held: "find_holding_index (holdings desk_aapl) (acc_no (accounts desk_aapl ! nat 0)) ''AAPL'' = Some 0"
    by (simp add: desk_aapl_facts aapl_row_def)
  have row: "qty (holdings desk_aapl ! 0) = 2"
    by (simp add: desk_aapl_facts aapl_row_def)
  have q: "(0::real) < 1" "1 \<le> qty (holdings desk_aapl ! 0)" "0.000001 < qty (holdings desk_aapl ! 0) - 1"
    by (simp_all add: row)
  have fxa: "fx desk_aapl = fx_initial"
    by (simp add: desk_aapl_def desk_facts)
  have proceeds: "cost_in_inr_for_purchase (fx desk_aapl) (prices (ensure_default_prices '''' desk_aapl) ! 2) 1 = 15865"
    by (simp add: desk_aapl_facts pr fxa desk_facts cost_in_inr_for_purchase_def fx_initial_def)
  note b = buy_closed [OF idx aapl closed, of stack_garbage 1]
  note s = sell_part [OF idx aapl held q, unfolded proceeds]
  from closed have "\<not> market_is_open (prices desk_aapl ! 2) 20"
    by (simp add: desk_aapl_facts)
  then show ?thesis
    unfolding b s
    by (simp add: add_balance_def desk_aapl_facts alice_def aapl_row_def)
qed

subsection \<open>C3: mark-to-market value of a position whose asset left the catalog\<close>

text \<open>
  Claim C3 says that a position whose asset is absent from the catalog is valued at its
  average price converted to INR by the rule of the position's market, EU positions by
  the INR-per-EUR rate. The fallback of \<open>compute_portfolio_value_inr\<close> converts US
  positions only: one unit of an absent EU asset with average price 100 is valued at 100
  INR, where the rule for its market (the one \<open>compute_unrealized_pl_inr\<close> applies to the
  same position) gives 100 * 88.2 = 8820 INR.
\<close>

theorem portfolio_value_eu_fallback_unconverted:
  "find_price_index (prices desk) (h_asset_id eu_orphan_row) = None
   \<and> h_market eu_orphan_row = ''EU''
   \<and> compute_portfolio_value_inr (desk\<lparr>holdings := [eu_orphan_row]\<rparr>) 1001 = 100
   \<and> qty eu_orphan_row * (avg_price eu_orphan_row * spec_fx_rate (fx desk) (h_market eu_orphan_row)) = 8820
   \<and> qty eu_orphan_row * cur_inr (fx desk) (prices desk) eu_orphan_row = 8820"
  by (simp add: compute_portfolio_value_inr_def portfolio_cur_price_def cur_inr_def
      cur_price_native_def spec_fx_rate_def eu_orphan_row_def desk_def default_prices_def
      strncpy_def fx_initial_def)

end
